theory Spec2Isabelle
  imports Complex_Main "HOL-Library.Multiset" "HOL-Library.Char_ord" "HOL-Library.List_Lexorder"
begin

section \<open>The TF-IDF retriever agent of parlai/agents/ir_baseline/ir_retrieve.py\<close>

text \<open>
  The class \<open>TfidfRetrieverAgent\<close> is embedded with explicit state passing. The
  attributes of one instance are the record \<open>agent\<close>; the objects that several
  instances share (the document counter, the database lock, the sqlite table, the queues
  and the two saved files) are the record \<open>world\<close>. An operation maps a pair of the
  two to either \<open>Inr (result, agent, world)\<close> or \<open>Inl (error, agent, world)\<close>: a
  Python exception is the left injection, and it carries the state at the moment of the
  raise, since the attributes an operation changed before raising stay changed.

  Python's \<open>hasattr(self, 'x')\<close> is \<open>x a \<noteq> None\<close> on an option-valued field, and
  \<open>del self.x\<close> sets the field to \<open>None\<close> (raising AttributeError when it is absent).
  Floating-point numbers are modelled as reals: rounding is not part of the model.
\<close>

subsection \<open>Errors and values\<close>

datatype error =
    AttributeError string
  | RuntimeError string
  | TypeError string
  | ValueError string
  | KeyError
  | IndexError
  | ProgrammingError string
  | OperationalError string
  | IntegrityError string
  | FileNotFoundError string
  | Blocked

text \<open>
  \<open>Blocked\<close> is not an exception: it stands for a call that never returns (a blocking
  \<open>get\<close> on an empty queue, a blocking \<open>acquire\<close> of a lock nobody will release).
\<close>

datatype pytoken = PyStr string | PyInt nat

datatype sqlval = SqlInt nat | SqlText string | SqlNull

datatype message =
    MStr string
  | MDict "(string \<times> nat) list"
  | MList "nat list list"
  | MOther

subsection \<open>Sparse matrices\<close>

text \<open>
  A scipy sparse matrix: its shape and its stored cells, each a position (row, column)
  with its number, in row-major order.
\<close>

record 'a sparse =
  nrows :: nat
  ncols :: nat
  cells :: "((nat \<times> nat) \<times> 'a) list"

definition cell :: "('a::zero) sparse \<Rightarrow> nat \<Rightarrow> nat \<Rightarrow> 'a" where
  "cell m t d = (case map_of (cells m) (t, d) of None \<Rightarrow> 0 | Some v \<Rightarrow> v)"

subsection \<open>The document table\<close>

text \<open>
  The sqlite table \<open>document\<close>: its column names and its rows, a row giving each
  column its cell. \<open>__init__\<close> creates it with the columns id, x and y, id the primary key.
\<close>

record table =
  columns :: "string list"
  rows :: "(string \<times> sqlval) list list"

definition DOC_TABLE_columns :: "string list" where
  "DOC_TABLE_columns = [''id'', ''x'', ''y'']"

definition create_table :: table where
  "create_table = \<lparr>columns = DOC_TABLE_columns, rows = []\<rparr>"

subsection \<open>Instance attributes and shared objects\<close>

record agent =
  all_tokens :: "(string \<times> nat) list"
  freq_token :: "nat list"
  freq_fact_id :: "nat list"
  freq_freq :: "nat list"
  insert_wait_list :: "sqlval list list"
  cnt :: nat
  count_matrix :: "nat sparse option"
  tfidfs :: "real sparse option"
  doc_freqs :: "nat list option"
  num_tokens :: "nat option"
  comm_queue :: "nat option"
  child_token_map :: "(nat \<times> nat) list list"

text \<open>
  \<open>all_tokens\<close> is the dict token => id in insertion order (a Python dict keeps it, and
  the master reads a worker's dict in that order). \<open>comm_queue\<close> is \<open>Some i\<close> on the
  worker that \<open>share()\<close> gave the queue \<open>comm_queues[i]\<close> (its \<open>child_id\<close> is the same
  \<open>i\<close>), and \<open>None\<close> on the master. No line of the class assigns \<open>doc_freqs\<close> or
  \<open>num_tokens\<close>: the methods that did are commented out.
\<close>

record world =
  num_docs :: nat
  db_lock_held :: bool
  document :: "table option"
  shared_queue :: "nat list"
  comm_queues :: "message list list"
  token_file :: "(string \<times> nat) list option"
  retriever_file :: "nat sparse option"

text \<open>
  \<open>num_docs\<close> is the shared counter \<open>Value('i', 0)\<close>, a C int: it is modelled as a
  natural number, which it is below 2^31 documents. \<open>db_lock_held\<close> says that the shared
  lock is held. \<open>document\<close> is \<open>None\<close> while the database file has no table.
\<close>

type_synonym state = "agent \<times> world"

type_synonym 'a result = "(error \<times> state) + ('a \<times> state)"

subsection \<open>The vocabulary\<close>

text \<open>
  \<open>_token2id\<close> (lines 263-271): an integer argument raises RuntimeError('surprise');
  a new token gets the id \<open>len(self.all_tokens)\<close>; the id stored for the token is returned.
\<close>

definition token2id :: "pytoken \<Rightarrow> agent \<Rightarrow> (error \<times> agent) + (nat \<times> agent)" where
  "token2id token a =
     (case token of
        PyInt i \<Rightarrow> Inl (RuntimeError ''surprise'', a)
      | PyStr s \<Rightarrow>
          (case map_of (all_tokens a) s of
             None \<Rightarrow>
               (let token_id = length (all_tokens a)
                in Inr (token_id, a\<lparr>all_tokens := all_tokens a @ [(s, token_id)]\<rparr>))
           | Some token_id \<Rightarrow> Inr (token_id, a)))"

text \<open>\<open>_new_freq\<close> (lines 196-199): one record on the three parallel lists.\<close>

definition new_freq :: "pytoken \<Rightarrow> nat \<Rightarrow> nat \<Rightarrow> agent \<Rightarrow> (error \<times> agent) + agent" where
  "new_freq token fact_id freq a =
     (case token2id token a of
        Inl e \<Rightarrow> Inl e
      | Inr (token_id, a1) \<Rightarrow>
          Inr (a1\<lparr>freq_token := freq_token a1 @ [token_id],
                  freq_fact_id := freq_fact_id a1 @ [fact_id],
                  freq_freq := freq_freq a1 @ [freq]\<rparr>))"

text \<open>
  The vocabulary is dense when its ids are 0, 1, ... in insertion order and no token is
  listed twice: one id per token, and no gap.
\<close>

definition dense :: "(string \<times> nat) list \<Rightarrow> bool" where
  "dense v = (map snd v = [0..<length v] \<and> distinct (map fst v))"

text \<open>
  The attributes \<open>__init__\<close> sets on every instance (lines 97-103): an empty vocabulary,
  empty frequency lists, an empty wait list, and no cache.
\<close>

definition init_attrs :: agent where
  "init_attrs =
     \<lparr>all_tokens = [], freq_token = [], freq_fact_id = [], freq_freq = [],
      insert_wait_list = [], cnt = 0, count_matrix = None, tfidfs = None,
      doc_freqs = None, num_tokens = None, comm_queue = None, child_token_map = []\<rparr>"

subsection \<open>The document store\<close>

text \<open>
  \<open>FACT_QUERY\<close> (lines 43-46) is \<open>INSERT INTO document (id,x,y) VALUES(?,?,?)\<close>: three
  columns and three placeholders. \<open>executemany\<close> runs it once for each tuple of
  parameters, inside one transaction (\<open>with self.cursor.connection\<close>), so an error
  leaves the table as it was. sqlite3 raises OperationalError for a table or column that
  does not exist, ProgrammingError for a tuple whose length is not the number of
  placeholders, and IntegrityError for a primary key that is already there.
\<close>

definition FACT_QUERY :: "string list" where
  "FACT_QUERY = [''id'', ''x'', ''y'']"

fun insert_rows :: "string list \<Rightarrow> sqlval list list \<Rightarrow> table \<Rightarrow> error + table" where
  "insert_rows qcols [] t = Inr t"
| "insert_rows qcols (p # ps) t =
     (if length p \<noteq> length qcols
      then Inl (ProgrammingError ''Incorrect number of bindings supplied'')
      else if map_of (zip qcols p) ''id'' \<in> set (map (\<lambda>r. map_of r ''id'') (rows t))
      then Inl (IntegrityError ''UNIQUE constraint failed: document.id'')
      else insert_rows qcols ps (t\<lparr>rows := rows t @ [zip qcols p]\<rparr>))"

definition executemany :: "string list \<Rightarrow> sqlval list list \<Rightarrow> table option \<Rightarrow> error + table" where
  "executemany qcols params tbl =
     (case tbl of
        None \<Rightarrow> Inl (OperationalError ''no such table: document'')
      | Some t \<Rightarrow>
          if list_all (\<lambda>c. c \<in> set (columns t)) qcols then insert_rows qcols params t
          else Inl (OperationalError ''table document has no such column''))"

text \<open>
  \<open>SELECT col FROM document WHERE wcol=?\<close> followed by \<open>fetchall()[0][0]\<close>: the first
  matching row's cell, IndexError when no row matches. The source passes the id as the text
  \<open>str(_doc_id)\<close>; sqlite compares it as an integer with an INTEGER column.
\<close>

definition select_first :: "string \<Rightarrow> string \<Rightarrow> sqlval \<Rightarrow> table option \<Rightarrow> error + sqlval" where
  "select_first col wcol v tbl =
     (case tbl of
        None \<Rightarrow> Inl (OperationalError ''no such table: document'')
      | Some t \<Rightarrow>
          if col \<notin> set (columns t) then Inl (OperationalError (''no such column: '' @ col))
          else if wcol \<notin> set (columns t) then Inl (OperationalError (''no such column: '' @ wcol))
          else (case filter (\<lambda>r. map_of r wcol = Some v) (rows t) of
                  [] \<Rightarrow> Inl IndexError
                | r # rs \<Rightarrow> (case map_of r col of None \<Rightarrow> Inr SqlNull | Some x \<Rightarrow> Inr x)))"

definition BUFFER_SIZE :: nat where
  "BUFFER_SIZE = 1000"

text \<open>
  \<open>_flush_db_wait_list\<close> (lines 149-159). Nothing happens on an empty wait list. A held
  lock makes a blocking call wait (for ever, when nobody releases it) and a non-blocking
  call return. An exception of \<open>executemany\<close> leaves the function before
  \<open>self.db_lock.release()\<close>, so the lock stays held.
\<close>

definition flush_db_wait_list :: "bool \<Rightarrow> state \<Rightarrow> unit result" where
  "flush_db_wait_list block s =
     (case s of (a, w) \<Rightarrow>
        if insert_wait_list a = [] then Inr ((), a, w)
        else if db_lock_held w then (if block then Inl (Blocked, a, w) else Inr ((), a, w))
        else (case executemany FACT_QUERY (insert_wait_list a) (document w) of
                Inl e \<Rightarrow> Inl (e, a, w\<lparr>db_lock_held := True\<rparr>)
              | Inr t \<Rightarrow> Inr ((), a\<lparr>insert_wait_list := []\<rparr>, w\<lparr>document := Some t\<rparr>)))"

text \<open>
  \<open>_new_fact_id\<close> (lines 189-194) and \<open>_insert_fact_without_id\<close> (lines 181-187): the
  wait list gets the pair \<open>(new_fact_id, fact)\<close>, a tuple of two.
\<close>

definition new_fact_id :: "world \<Rightarrow> nat \<times> world" where
  "new_fact_id w = (num_docs w, w\<lparr>num_docs := num_docs w + 1\<rparr>)"

definition insert_fact_without_id :: "string \<Rightarrow> state \<Rightarrow> nat result" where
  "insert_fact_without_id ftext s =
     (case s of (a, w) \<Rightarrow>
        (case new_fact_id w of (fact_id, w1) \<Rightarrow>
           (let a1 = a\<lparr>insert_wait_list := insert_wait_list a @ [[SqlInt fact_id, SqlText ftext]]\<rparr>
            in if BUFFER_SIZE \<le> length (insert_wait_list a1)
               then (case flush_db_wait_list False (a1, w1) of
                       Inl e \<Rightarrow> Inl e
                     | Inr (u, a2, w2) \<Rightarrow> Inr (fact_id, a2, w2))
               else Inr (fact_id, a1, w1))))"

subsection \<open>Ingesting a fact\<close>

text \<open>
  \<open>np.unique(xs, return_counts=True)\<close>: the distinct elements in increasing order, each
  with the number of its occurrences.
\<close>

definition np_unique :: "('a::linorder) list \<Rightarrow> ('a \<times> nat) list" where
  "np_unique xs = map (\<lambda>x. (x, count_list xs x)) (sort (remdups xs))"

text \<open>The four \<open>del\<close> statements of \<open>act\<close> (lines 281-284), in their order.\<close>

definition reset_caches :: "agent \<Rightarrow> (error \<times> agent) + agent" where
  "reset_caches a =
     (let a1 = a\<lparr>tfidfs := None\<rparr>
      in if count_matrix a1 = None then Inl (AttributeError ''count_matrix'', a1)
         else (let a2 = a1\<lparr>count_matrix := None\<rparr>
               in if doc_freqs a2 = None then Inl (AttributeError ''doc_freqs'', a2)
                  else (let a3 = a2\<lparr>doc_freqs := None\<rparr>
                        in if num_tokens a3 = None then Inl (AttributeError ''num_tokens'', a3)
                           else Inr (a3\<lparr>num_tokens := None\<rparr>))))"

text \<open>The loop of \<open>act\<close> over the distinct tokens of the fact (lines 295-301).\<close>

fun new_freqs :: "(string \<times> nat) list \<Rightarrow> nat \<Rightarrow> agent \<Rightarrow> (error \<times> agent) + agent" where
  "new_freqs [] fact_id a = Inr a"
| "new_freqs ((token, c) # ts) fact_id a =
     (case new_freq (PyStr token) fact_id c a of
        Inl e \<Rightarrow> Inl e
      | Inr a1 \<Rightarrow> new_freqs ts fact_id a1)"

definition status :: "(string \<times> string) list" where
  "status = [(''id'', ''TfidfRetriever'')]"

text \<open>
  \<open>act\<close> (lines 277-302). The tokenizer \<open>tok\<close> stands for \<open>self._tokenize\<close> (the DrQA
  tokenizer, not part of this repository), and \<open>obs\<close> is the dict \<open>self.observation\<close>.
  The progress message every 10000 rows goes to the log only.
\<close>

definition act :: "(string \<Rightarrow> string list) \<Rightarrow> (string \<rightharpoonup> string) \<Rightarrow> state \<Rightarrow> ((string \<times> string) list) result" where
  "act tok obs s =
     (case s of (a, w) \<Rightarrow>
        (case (if tfidfs a \<noteq> None then reset_caches a else Inr a) of
           Inl (e, a1) \<Rightarrow> Inl (e, a1, w)
         | Inr a1 \<Rightarrow>
             (case obs ''text'' of
                None \<Rightarrow> Inr (status, a1, w)
              | Some ftext \<Rightarrow>
                  (case insert_fact_without_id ftext (a1\<lparr>cnt := cnt a1 + 1\<rparr>, w) of
                     Inl e \<Rightarrow> Inl e
                   | Inr (fact_id, a2, w2) \<Rightarrow>
                       (case new_freqs (np_unique (tok ftext)) fact_id a2 of
                          Inl (e, a3) \<Rightarrow> Inl (e, a3, w2)
                        | Inr a3 \<Rightarrow> Inr (status, a3, w2))))))"

subsection \<open>The count matrix\<close>

text \<open>
  \<open>self.len\<close>, which \<open>_get_count_matrix\<close> (line 131) and \<open>retrieve\<close> (line 379) call
  on the vocabulary: the class defines no method and assigns no attribute of that name
  (the commented-out \<open>_get_num_tokens\<close> used the builtin \<open>len\<close>), so the attribute
  lookup raises AttributeError, as the call of \<open>start_data_collection\<close> does.
\<close>

definition agent_len :: "(string \<times> nat) list \<Rightarrow> error + nat" where
  "agent_len d = Inl (AttributeError ''len'')"

text \<open>The sum of the counts of the records of one (token, document) pair.\<close>

definition coo_total :: "(nat \<times> nat \<times> nat) list \<Rightarrow> nat \<Rightarrow> nat \<Rightarrow> nat" where
  "coo_total recs t d =
     sum_list (map (\<lambda>(i, j, c). c) (filter (\<lambda>(i, j, c). i = t \<and> j = d) recs))"

text \<open>
  \<open>sp.csr_matrix((data, (row, col)), shape=(V, D))\<close> followed by \<open>sum_duplicates()\<close>:
  scipy raises ValueError when the three sequences differ in length or an index lies
  outside the shape; the matrix stores one cell for each position that has a record, in
  row-major order, holding the sum of the records there. The counts are Python and numpy
  integers; a fact has far fewer than 2^63 tokens, so they are modelled as naturals. A
  shape with a dimension of 0 is accepted, as current scipy does.
\<close>

definition csr_matrix :: "nat list \<Rightarrow> nat list \<Rightarrow> nat list \<Rightarrow> nat \<Rightarrow> nat \<Rightarrow> error + nat sparse" where
  "csr_matrix data row col V D =
     (if length row = length data \<and> length col = length data
      then (if list_ex (\<lambda>i. V \<le> i) row
            then Inl (ValueError ''row index exceeds matrix dimensions'')
            else if list_ex (\<lambda>j. D \<le> j) col
            then Inl (ValueError ''column index exceeds matrix dimensions'')
            else Inr \<lparr>nrows = V, ncols = D,
                      cells = [((t, d), coo_total (zip row (zip col data)) t d).
                                 t \<leftarrow> [0..<V], d \<leftarrow> [0..<D], (t, d) \<in> set (zip row col)]\<rparr>)
      else Inl (ValueError ''row, column, and data array must all be the same length''))"

text \<open>
  \<open>_get_count_matrix\<close> (lines 126-135). A cached matrix is returned whenever the
  attribute is there, whether or not records were added since it was built. Without one,
  the arguments of \<open>sp.csr_matrix\<close> are evaluated first, \<open>self.len\<close> among them.
\<close>

definition get_count_matrix :: "state \<Rightarrow> (nat sparse) result" where
  "get_count_matrix s =
     (case s of (a, w) \<Rightarrow>
        (case count_matrix a of
           Some m \<Rightarrow> Inr (m, a, w)
         | None \<Rightarrow>
             (case agent_len (all_tokens a) of
                Inl e \<Rightarrow> Inl (e, a, w)
              | Inr V \<Rightarrow>
                  (case csr_matrix (freq_freq a) (freq_token a) (freq_fact_id a) V (num_docs w) of
                     Inl e \<Rightarrow> Inl (e, a, w)
                   | Inr m \<Rightarrow> Inr (m, a\<lparr>count_matrix := Some m\<rparr>, w)))))"

subsection \<open>The TF-IDF matrix\<close>

text \<open>
  \<open>binary.sum(1)\<close> of \<open>binary = (count_matrix > 0).astype(int)\<close>: the number of cells
  of row \<open>t\<close> with a positive count, which is the number of documents that hold token
  \<open>t\<close>.
\<close>

definition binary_row_sum :: "nat sparse \<Rightarrow> nat \<Rightarrow> nat" where
  "binary_row_sum m t = length (filter (\<lambda>((r, c), v). r = t \<and> 0 < v) (cells m))"

text \<open>
  \<open>np.log((D - Ns + 0.5) / (Ns + 0.5))\<close> followed by \<open>idfs[idfs < 0] = 0\<close>, for one
  token. (numpy's logarithm of a negative number is nan, which the assignment leaves;
  \<open>ln\<close> is not specified there. The quotient is positive whenever \<open>N \<le> D\<close>.)
\<close>

definition idf :: "nat \<Rightarrow> nat \<Rightarrow> real" where
  "idf D N =
     (let x = ln ((real D - real N + 0.5) / (real N + 0.5))
      in if x < 0 then 0 else x)"

text \<open>\<open>count_matrix.log1p()\<close>: every stored cell \<open>c\<close> becomes \<open>log(1 + c)\<close>.\<close>

definition log1p :: "nat sparse \<Rightarrow> real sparse" where
  "log1p m =
     \<lparr>nrows = nrows m, ncols = ncols m,
      cells = map (\<lambda>(p, c). (p, ln (1 + real c))) (cells m)\<rparr>"

text \<open>
  \<open>sp.diags(idfs, 0).dot(tfs)\<close>: row \<open>t\<close> of \<open>tfs\<close> times \<open>idfs[t]\<close>. scipy turns
  the diagonal matrix into CSR form first and leaves its zeros out, so a row whose factor is
  0 stores no cell in the product.
\<close>

definition diags_dot :: "real list \<Rightarrow> real sparse \<Rightarrow> real sparse" where
  "diags_dot idfs tfs =
     \<lparr>nrows = length idfs, ncols = ncols tfs,
      cells = map (\<lambda>((t, d), v). ((t, d), idfs ! t * v))
                (filter (\<lambda>((t, d), v). idfs ! t \<noteq> 0) (cells tfs))\<rparr>"

text \<open>
  \<open>_get_tfidf_from_count_matrix\<close> (lines 137-147). On a matrix of one row,
  \<open>np.array(binary.sum(1)).squeeze()\<close> is an array of dimension 0, numpy's arithmetic
  and \<open>np.log\<close> turn it into a scalar \<open>numpy.float64\<close>, and the assignment
  \<open>idfs[idfs < 0] = 0\<close> raises TypeError: a scalar does not support item assignment.
\<close>

definition get_tfidf_from_count_matrix :: "nat sparse \<Rightarrow> agent \<Rightarrow> (error \<times> agent) + (real sparse \<times> agent)" where
  "get_tfidf_from_count_matrix cm a =
     (case tfidfs a of
        Some m \<Rightarrow> Inr (m, a)
      | None \<Rightarrow>
          if nrows cm = 1
          then Inl (TypeError ''numpy.float64 object does not support item assignment'', a)
          else (let Ns = map (binary_row_sum cm) [0..<nrows cm];
                    idfs = map (idf (ncols cm)) Ns;
                    tfs = log1p cm;
                    m = diags_dot idfs tfs
                in Inr (m, a\<lparr>tfidfs := Some m\<rparr>)))"

text \<open>\<open>compute_tfidf\<close> (lines 351-352).\<close>

definition compute_tfidf :: "state \<Rightarrow> (real sparse) result" where
  "compute_tfidf s =
     (case get_count_matrix s of
        Inl e \<Rightarrow> Inl e
      | Inr (cm, a1, w1) \<Rightarrow>
          (case get_tfidf_from_count_matrix cm a1 of
             Inl (e, a2) \<Rightarrow> Inl (e, a2, w1)
           | Inr (m, a2) \<Rightarrow> Inr (m, a2, w1)))"

subsection \<open>Saving and loading\<close>

text \<open>
  \<open>load\<close> (lines 304-310) and \<open>save\<close> (lines 312-315). \<open>np.load\<close> and
  \<open>sp.load_npz\<close> raise FileNotFoundError for a file that is not there.
\<close>

definition load :: "state \<Rightarrow> unit result" where
  "load s =
     (case s of (a, w) \<Rightarrow>
        (case token_file w of
           None \<Rightarrow> Inl (FileNotFoundError ''token file'', a, w)
         | Some toks \<Rightarrow>
             (case retriever_file w of
                None \<Rightarrow> Inl (FileNotFoundError ''retriever file'', a\<lparr>all_tokens := toks\<rparr>, w)
              | Some m \<Rightarrow>
                  (let a1 = a\<lparr>all_tokens := toks, count_matrix := Some m\<rparr>;
                       w1 = w\<lparr>num_docs := ncols m\<rparr>
                   in (case get_tfidf_from_count_matrix m a1 of
                         Inl (e, a2) \<Rightarrow> Inl (e, a2, w1)
                       | Inr (t, a2) \<Rightarrow> Inr ((), a2, w1))))))"

definition save :: "state \<Rightarrow> unit result" where
  "save s =
     (case s of (a, w) \<Rightarrow>
        (case get_count_matrix (a, w\<lparr>token_file := Some (all_tokens a)\<rparr>) of
           Inl e \<Rightarrow> Inl e
         | Inr (m, a1, w1) \<Rightarrow> Inr ((), a1, w1\<lparr>retriever_file := Some m\<rparr>)))"

subsection \<open>The merge of the workers' data\<close>

text \<open>
  The dict branch of \<open>_process_child_data\<close> (lines 226-229): every token of the worker's
  vocabulary gets its id in the master's vocabulary, and the worker's table
  \<open>child_token_map[queue_ind]\<close> maps the worker's id to it.
\<close>

fun remap_tokens :: "(string \<times> nat) list \<Rightarrow> nat \<Rightarrow> agent \<Rightarrow> (error \<times> agent) + agent" where
  "remap_tokens [] q a = Inr a"
| "remap_tokens ((token, token_id) # d) q a =
     (case token2id (PyStr token) a of
        Inl e \<Rightarrow> Inl e
      | Inr (true_token_id, a1) \<Rightarrow>
          if length (child_token_map a1) \<le> q then Inl (IndexError, a1)
          else remap_tokens d q
                 (a1\<lparr>child_token_map :=
                       (child_token_map a1)[q := (token_id, true_token_id) # child_token_map a1 ! q]\<rparr>))"

text \<open>
  The list branch (lines 230-237): for every index, \<open>_new_freq\<close> is called with the
  master's id of the token, a number, as its \<open>token\<close> argument.
\<close>

fun emit_freqs :: "nat list \<Rightarrow> nat \<Rightarrow> nat list \<Rightarrow> nat list \<Rightarrow> nat list \<Rightarrow> agent \<Rightarrow>
    (error \<times> agent) + agent" where
  "emit_freqs [] q token_ids fact_ids freqs a = Inr a"
| "emit_freqs (ind # inds) q token_ids fact_ids freqs a =
     (if length (child_token_map a) \<le> q then Inl (IndexError, a)
      else (case map_of (child_token_map a ! q) (token_ids ! ind) of
              None \<Rightarrow> Inl (KeyError, a)
            | Some true_token_id \<Rightarrow>
                if length fact_ids \<le> ind \<or> length freqs \<le> ind then Inl (IndexError, a)
                else (case new_freq (PyInt true_token_id) (fact_ids ! ind) (freqs ! ind) a of
                        Inl e \<Rightarrow> Inl e
                      | Inr a1 \<Rightarrow> emit_freqs inds q token_ids fact_ids freqs a1)))"

text \<open>
  The inner loop (lines 222-239) over the messages that wait in one worker's queue. It
  returns the messages left in the queue. \<open>get()\<close> on an empty queue blocks.
\<close>

fun drain :: "nat \<Rightarrow> message list \<Rightarrow> agent \<Rightarrow>
    (error \<times> agent \<times> message list) + (agent \<times> message list)" where
  "drain q [] a = Inl (Blocked, a, [])"
| "drain q (MStr x # ms) a =
     (if x = ''EOD'' then Inr (a, ms)
      else Inl (RuntimeError ''TfidfRetrieverAgent: wrong data format send from child to master.'', a, ms))"
| "drain q (MDict d # ms) a =
     (case remap_tokens d q a of
        Inl (e, a1) \<Rightarrow> Inl (e, a1, ms)
      | Inr a1 \<Rightarrow> drain q ms a1)"
| "drain q (MList l # ms) a =
     (case l of
        [token_ids, fact_ids, freqs] \<Rightarrow>
          (case emit_freqs [0..<length token_ids] q token_ids fact_ids freqs a of
             Inl (e, a1) \<Rightarrow> Inl (e, a1, ms)
           | Inr a1 \<Rightarrow> drain q ms a1)
      | _ \<Rightarrow> Inl (ValueError ''wrong number of values to unpack'', a, ms))"
| "drain q (MOther # ms) a =
     Inl (RuntimeError ''TfidfRetrieverAgent: wrong data format send from child to master.'', a, ms)"

text \<open>The outer loop (lines 220-221): one finished worker for each registered queue.\<close>

fun collect :: "nat \<Rightarrow> state \<Rightarrow> unit result" where
  "collect 0 s = Inr ((), s)"
| "collect (Suc n) s =
     (case s of (a, w) \<Rightarrow>
        (case shared_queue w of
           [] \<Rightarrow> Inl (Blocked, a, w)
         | queue_ind # qs \<Rightarrow>
             (let w1 = w\<lparr>shared_queue := qs\<rparr>
              in if length (comm_queues w1) \<le> queue_ind then Inl (IndexError, a, w1)
                 else (case drain queue_ind (comm_queues w1 ! queue_ind) a of
                         Inl (e, a1, ms) \<Rightarrow>
                           Inl (e, a1, w1\<lparr>comm_queues := (comm_queues w1)[queue_ind := ms]\<rparr>)
                       | Inr (a1, ms) \<Rightarrow>
                           collect n (a1, w1\<lparr>comm_queues := (comm_queues w1)[queue_ind := ms]\<rparr>)))))"

text \<open>\<open>_process_child_data\<close> (lines 218-239), the target of the master's thread.\<close>

definition process_child_data :: "state \<Rightarrow> unit result" where
  "process_child_data s =
     (case s of (a, w) \<Rightarrow>
        collect (length (comm_queues w))
          (a\<lparr>child_token_map := replicate (length (comm_queues w)) []\<rparr>, w))"

subsection \<open>Construction, sharing and shutdown\<close>

text \<open>
  \<open>__init__\<close> (lines 71-124). \<open>disk\<close> holds what the files hold before: the document
  table (\<open>None\<close>: no database file yet, the table is created), the token file and the
  retriever file. When the retriever file exists, \<open>load\<close> runs at line 107, before
  \<open>self.num_docs\<close> is assigned at line 111 or 118, and its line 309 raises
  AttributeError. The master starts its thread at once (line 124), when
  \<open>self.comm_queues\<close> is still empty; the thread's body is run here.
\<close>

definition init_files :: "world \<Rightarrow> world" where
  "init_files disk =
     disk\<lparr>document := (case document disk of None \<Rightarrow> Some create_table | Some t \<Rightarrow> Some t)\<rparr>"

definition init_load :: "agent \<Rightarrow> world \<Rightarrow> (error \<times> agent) + agent" where
  "init_load a w =
     (case retriever_file w of
        None \<Rightarrow> Inr a
      | Some m \<Rightarrow>
          (case token_file w of
             None \<Rightarrow> Inl (FileNotFoundError ''token file'', a)
           | Some toks \<Rightarrow>
               Inl (AttributeError ''num_docs'', a\<lparr>all_tokens := toks, count_matrix := Some m\<rparr>)))"

definition init_master :: "world \<Rightarrow> unit result" where
  "init_master disk =
     (let w = (init_files disk)\<lparr>num_docs := 0, db_lock_held := False,
                                shared_queue := [], comm_queues := []\<rparr>
      in (case init_load init_attrs w of
            Inl (e, a) \<Rightarrow> Inl (e, a, w)
          | Inr a \<Rightarrow> process_child_data (a, w)))"

text \<open>
  \<open>share\<close> (lines 317-325) registers a new queue with the master, and \<open>__init__\<close> with
  the shared handle makes the worker that owns it.
\<close>

definition share :: "world \<Rightarrow> nat \<times> world" where
  "share w = (length (comm_queues w), w\<lparr>comm_queues := comm_queues w @ [[]]\<rparr>)"

definition init_worker :: "world \<Rightarrow> unit result" where
  "init_worker w0 =
     (case share w0 of (child_id, w1) \<Rightarrow>
        (let w = init_files w1
         in (case init_load init_attrs w of
               Inl (e, a) \<Rightarrow> Inl (e, a, w)
             | Inr a \<Rightarrow> Inr ((), a\<lparr>comm_queue := Some child_id\<rparr>, w))))"

text \<open>
  \<open>shutdown\<close> (lines 327-344). A worker announces its index and puts its vocabulary, its
  three frequency lists and the end mark on its queue. The master calls
  \<open>self.start_data_collection()\<close>: the class has no such method (its definition,
  lines 346-349, is commented out), so the call raises AttributeError, and the
  \<open>join\<close> and the \<open>save\<close> after it (lines 343-344) are not reached.
\<close>

definition shutdown :: "state \<Rightarrow> unit result" where
  "shutdown s =
     (case flush_db_wait_list True s of
        Inl e \<Rightarrow> Inl e
      | Inr (u, a, w) \<Rightarrow>
          (case comm_queue a of
             Some child_id \<Rightarrow>
               Inr ((), a,
                    w\<lparr>shared_queue := shared_queue w @ [child_id],
                      comm_queues := (comm_queues w)[child_id := comm_queues w ! child_id @
                         [MDict (all_tokens a),
                          MList [freq_token a, freq_fact_id a, freq_freq a],
                          MStr ''EOD'']]\<rparr>)
           | None \<Rightarrow> Inl (AttributeError ''start_data_collection'', a, w)))"

subsection \<open>Retrieval\<close>

text \<open>
  The list comprehension \<open>[self._token2id(token) for token in tokens]\<close> (line 366).
\<close>

fun token2ids :: "string list \<Rightarrow> agent \<Rightarrow> (error \<times> agent) + (nat list \<times> agent)" where
  "token2ids [] a = Inr ([], a)"
| "token2ids (token # ts) a =
     (case token2id (PyStr token) a of
        Inl e \<Rightarrow> Inl e
      | Inr (wid, a1) \<Rightarrow>
          (case token2ids ts a1 of
             Inl e \<Rightarrow> Inl e
           | Inr (wids, a2) \<Rightarrow> Inr (wid # wids, a2)))"

text \<open>\<open>self.doc_freqs[wids_unique]\<close>: numpy's indexing of an array by an array of indices.\<close>

definition fancy_index :: "nat list \<Rightarrow> nat list \<Rightarrow> error + nat list" where
  "fancy_index xs inds =
     (if list_ex (\<lambda>i. length xs \<le> i) inds then Inl IndexError else Inr (map (nth xs) inds))"

text \<open>
  \<open>spvec * self.tfidfs\<close> (line 381): the product of the one-row matrix \<open>spvec\<close>, given
  by its stored (column, weight) pairs and its length \<open>n\<close>, with a matrix. scipy's
  \<open>csr_matmat\<close> walks the stored weights of the query and, for each, the stored cells of
  that row of the matrix, adding up a score for each document it meets; it then lists the
  documents from the one met last to the one met first, and leaves out a score of 0. The
  result is \<open>res.indices\<close> paired with \<open>res.data\<close>.
\<close>

definition met_docs :: "(nat \<times> real) list \<Rightarrow> real sparse \<Rightarrow> nat list" where
  "met_docs spvec m =
     concat (map (\<lambda>(t, x). map (\<lambda>((r, d), v). d) (filter (\<lambda>((r, d), v). r = t) (cells m))) spvec)"

definition score :: "(nat \<times> real) list \<Rightarrow> real sparse \<Rightarrow> nat \<Rightarrow> real" where
  "score spvec m d =
     sum_list (concat (map (\<lambda>(t, x).
        map (\<lambda>((r, c), v). x * v) (filter (\<lambda>((r, c), v). r = t \<and> c = d) (cells m))) spvec))"

definition row_times :: "(nat \<times> real) list \<Rightarrow> nat \<Rightarrow> real sparse \<Rightarrow> error + (nat \<times> real) list" where
  "row_times spvec n m =
     (if n = nrows m
      then Inr (filter (\<lambda>(d, x). x \<noteq> 0)
                  (map (\<lambda>d. (d, score spvec m d)) (remdups (rev (met_docs spvec m)))))
      else Inl (ValueError ''dimension mismatch''))"

text \<open>
  The selection of lines 382-386. \<open>argsort\<close> and \<open>argpartition\<close> stand for
  \<open>np.argsort\<close> and \<open>np.argpartition\<close>; numpy fixes what they return only up to the
  order of equal elements, so they are parameters. The result is \<open>o_sort\<close>, the
  positions in \<open>res.data\<close> of the chosen scores.
\<close>

definition top_k :: "(real list \<Rightarrow> nat list) \<Rightarrow> (real list \<Rightarrow> nat \<Rightarrow> nat list) \<Rightarrow> real list \<Rightarrow> nat \<Rightarrow> nat list" where
  "top_k argsort argpartition data max_results =
     (if length data \<le> max_results then argsort (map uminus data)
      else (let part = take max_results (argpartition (map uminus data) max_results)
            in map (nth part) (argsort (map (\<lambda>i. - (data ! i)) part))))"

text \<open>
  What numpy documents for the two functions. \<open>argsort\<close> returns the indices that sort
  the array. \<open>argpartition a k\<close>, for \<open>k\<close> below the length, returns indices that put
  the element of rank \<open>k\<close> at position \<open>k\<close>, nothing larger before it and nothing
  smaller behind it.
\<close>

definition argsort_spec :: "(real list \<Rightarrow> nat list) \<Rightarrow> bool" where
  "argsort_spec f =
     (\<forall>xs. mset (f xs) = mset [0..<length xs] \<and> sorted (map (nth xs) (f xs)))"

definition argpartition_spec :: "(real list \<Rightarrow> nat \<Rightarrow> nat list) \<Rightarrow> bool" where
  "argpartition_spec g =
     (\<forall>xs k. k < length xs \<longrightarrow>
        mset (g xs k) = mset [0..<length xs] \<and>
        (\<forall>i < length xs.
           (i < k \<longrightarrow> xs ! (g xs k ! i) \<le> xs ! (g xs k ! k)) \<and>
           (k < i \<longrightarrow> xs ! (g xs k ! k) \<le> xs ! (g xs k ! i))))"

text \<open>One function of each kind, to run the selection on concrete scores.\<close>

definition stable_argsort :: "real list \<Rightarrow> nat list" where
  "stable_argsort xs = sort_key (nth xs) [0..<length xs]"

definition sorting_argpartition :: "real list \<Rightarrow> nat \<Rightarrow> nat list" where
  "sorting_argpartition xs k = sort_key (nth xs) [0..<length xs]"

text \<open>
  The loop of lines 389-394: one query of the document table for each result id,
  \<open>SELECT fact FROM document WHERE fact_id=?\<close>, and the first cell of the first row.
\<close>

fun fetch_docs :: "nat list \<Rightarrow> table option \<Rightarrow> error + sqlval list" where
  "fetch_docs [] tbl = Inr []"
| "fetch_docs (doc_id # ids) tbl =
     (case select_first ''fact'' ''fact_id'' (SqlInt doc_id) tbl of
        Inl e \<Rightarrow> Inl e
      | Inr x \<Rightarrow>
          (case fetch_docs ids tbl of
             Inl e \<Rightarrow> Inl e
           | Inr xs \<Rightarrow> Inr (x # xs)))"

text \<open>
  The query vector of lines 366-380: the ids of the surviving tokens, their distinct
  values with \<open>log1p\<close> of their counts, the document frequencies read from
  \<open>self.doc_freqs\<close>, and the products. The result is the list of (token id, weight)
  pairs of the one-row matrix.
\<close>

definition query_vector :: "string list \<Rightarrow> state \<Rightarrow> ((nat \<times> real) list) result" where
  "query_vector tokens s =
     (case s of (a, w) \<Rightarrow>
        (case token2ids tokens a of
           Inl (e, a1) \<Rightarrow> Inl (e, a1, w)
         | Inr (wids, a1) \<Rightarrow>
             (let uc = np_unique wids;
                  wids_unique = map fst uc;
                  tfs = map (\<lambda>(i, c). ln (1 + real c)) uc
              in (case doc_freqs a1 of
                    None \<Rightarrow> Inl (AttributeError ''doc_freqs'', a1, w)
                  | Some df \<Rightarrow>
                      (case fancy_index df wids_unique of
                         Inl e \<Rightarrow> Inl (e, a1, w)
                       | Inr Ns \<Rightarrow>
                           (let idfs = map (idf (num_docs w)) Ns;
                                data = map2 (*) tfs idfs
                            in Inr (zip wids_unique data, a1, w)))))))"

text \<open>
  \<open>retrieve\<close> (lines 360-394). The function is a generator: its body runs when the
  caller iterates, and the model returns the whole sequence of yielded cells, or the
  exception that ends the iteration. The one-row matrix of lines 377-380 takes its
  length from \<open>self.len\<close>.
\<close>

definition retrieve :: "(string \<Rightarrow> string list) \<Rightarrow> (real list \<Rightarrow> nat list) \<Rightarrow> (real list \<Rightarrow> nat \<Rightarrow> nat list) \<Rightarrow>
    string \<Rightarrow> nat \<Rightarrow> state \<Rightarrow> (sqlval list) result" where
  "retrieve tok argsort argpartition query max_results s =
     (case flush_db_wait_list True s of
        Inl e \<Rightarrow> Inl e
      | Inr (u, a, w) \<Rightarrow>
          (let tokens = filter (\<lambda>token. map_of (all_tokens a) token \<noteq> None) (tok query)
           in if tokens = [] then Inr ([], a, w)
              else (case compute_tfidf (a, w) of
                      Inl e \<Rightarrow> Inl e
                    | Inr (m0, a1, w1) \<Rightarrow>
                        (case query_vector tokens (a1, w1) of
                           Inl e \<Rightarrow> Inl e
                         | Inr (spvec, a2, w2) \<Rightarrow>
                             (case agent_len (all_tokens a2) of
                                Inl e \<Rightarrow> Inl (e, a2, w2)
                              | Inr n \<Rightarrow>
                                  (case tfidfs a2 of
                                     None \<Rightarrow> Inl (AttributeError ''tfidfs'', a2, w2)
                                   | Some m \<Rightarrow>
                                       (case row_times spvec n m of
                                          Inl e \<Rightarrow> Inl (e, a2, w2)
                                        | Inr res \<Rightarrow>
                                            (let o_sort = top_k argsort argpartition (map snd res) max_results;
                                                 doc_ids = map (\<lambda>i. fst (res ! i)) o_sort
                                             in (case fetch_docs doc_ids (document w2) of
                                                   Inl e \<Rightarrow> Inl (e, a2, w2)
                                                 | Inr xs \<Rightarrow> Inr (xs, a2, w2))))))))))"

text \<open>
  A tokenizer for concrete runs: it splits at spaces. (The DrQA tokenizer also
  normalizes, lowercases and filters; none of the runs below depends on that.)
\<close>

fun split_from :: "string \<Rightarrow> string \<Rightarrow> string list" where
  "split_from acc [] = (if acc = [] then [] else [acc])"
| "split_from acc (c # cs) =
     (if c = CHR '' '' then (if acc = [] then split_from [] cs else acc # split_from [] cs)
      else split_from (acc @ [c]) cs)"

definition split_spaces :: "string \<Rightarrow> string list" where
  "split_spaces s = split_from [] s"

text \<open>The files before the first run: no database, no saved index.\<close>

definition fresh_disk :: world where
  "fresh_disk =
     \<lparr>num_docs = 0, db_lock_held = False, document = None, shared_queue = [],
      comm_queues = [], token_file = None, retriever_file = None\<rparr>"

text \<open>
  The attributes of an instance after \<open>act\<close> on the fact \<open>cat dog\<close>, its first: two
  tokens, one record for each, and the pair (0, cat dog) waiting for the database.
\<close>

definition a_cat_dog :: agent where
  "a_cat_dog =
     init_attrs\<lparr>all_tokens := [(''cat'', 0), (''dog'', 1)],
       freq_token := [0, 1], freq_fact_id := [0, 0], freq_freq := [1, 1],
       insert_wait_list := [[SqlInt 0, SqlText ''cat dog'']], cnt := 1\<rparr>"

text \<open>The shared objects after that \<open>act\<close>: the table created, one document id given out.\<close>

definition w_one :: world where
  "w_one = fresh_disk\<lparr>document := Some create_table, num_docs := 1\<rparr>"

text \<open>
  Disk contents with a saved index of one document, \<open>cat dog\<close>: the vocabulary and the
  2 x 1 count matrix.
\<close>

definition saved_index :: world where
  "saved_index =
     fresh_disk\<lparr>document := Some create_table,
       token_file := Some [(''cat'', 0), (''dog'', 1)],
       retriever_file := Some \<lparr>nrows = 2, ncols = 1, cells = [((0, 0), 1), ((1, 0), 1)]\<rparr>\<rparr>"

text \<open>
  A worker made by \<open>share\<close> after the same \<open>act\<close>, and the shared objects once the
  messages of its \<open>shutdown\<close> (lines 331-338) are on its queue.
\<close>

definition a_worker :: agent where
  "a_worker = a_cat_dog\<lparr>comm_queue := Some 0\<rparr>"

definition w_sent :: world where
  "w_sent =
     w_one\<lparr>shared_queue := [0],
       comm_queues := [[MDict [(''cat'', 0), (''dog'', 1)],
                        MList [[0, 1], [0, 0], [1, 1]],
                        MStr ''EOD'']]\<rparr>"

subsection \<open>Well-formed frequency lists\<close>

text \<open>
  The three frequency lists are parallel, every token id is an id of the vocabulary and
  every document id is below \<open>n\<close>, the value of the document counter. \<open>act\<close> keeps
  it so on a dense vocabulary.
\<close>

definition records_in_range :: "agent \<Rightarrow> nat \<Rightarrow> bool" where
  "records_in_range a n =
     (length (freq_token a) = length (freq_freq a) \<and>
      length (freq_fact_id a) = length (freq_freq a) \<and>
      list_all (\<lambda>t. t < length (all_tokens a)) (freq_token a) \<and>
      list_all (\<lambda>d. d < n) (freq_fact_id a))"


section \<open>Concrete runs\<close>

lemma split_cat_dog: "split_spaces ''cat dog'' = [''cat'', ''dog'']"
  by (simp add: split_spaces_def)

lemma unique_cat_dog: "np_unique [''cat'', ''dog''] = [(''cat'', 1), (''dog'', 1)]"
  by (simp add: np_unique_def)

lemma init_master_fresh:
  "init_master fresh_disk = Inr ((), init_attrs, fresh_disk\<lparr>document := Some create_table\<rparr>)"
  by (simp add: init_master_def init_files_def init_load_def fresh_disk_def
      process_child_data_def init_attrs_def)

lemma act_cat_dog:
  "act split_spaces [''text'' \<mapsto> ''cat dog''] (init_attrs, fresh_disk\<lparr>document := Some create_table\<rparr>)
     = Inr (status, a_cat_dog, w_one)"
  by (simp add: act_def init_attrs_def insert_fact_without_id_def new_fact_id_def BUFFER_SIZE_def
      split_cat_dog unique_cat_dog new_freq_def token2id_def fresh_disk_def a_cat_dog_def w_one_def)

section \<open>The vocabulary\<close>

lemma dense_append: "dense v \<Longrightarrow> map_of v s = None \<Longrightarrow> dense (v @ [(s, length v)])"
  by (auto simp: dense_def map_of_eq_None_iff)

lemma token2id_known:
  "map_of (all_tokens a) s = Some i \<Longrightarrow> token2id (PyStr s) a = Inr (i, a)"
  by (simp add: token2id_def)

lemma token2id_new:
  "map_of (all_tokens a) s = None \<Longrightarrow>
   token2id (PyStr s) a =
     Inr (length (all_tokens a), a\<lparr>all_tokens := all_tokens a @ [(s, length (all_tokens a))]\<rparr>)"
  by (simp add: token2id_def Let_def)

text \<open>
  C8. In every vocabulary state, \<open>_token2id\<close> on a token string returns an id, and
  returns the same id when it is called again; a token that was not there gets the current
  size of the vocabulary as its id and is appended; a token that was there changes
  nothing; a dense vocabulary stays dense (ids 0, 1, ... without a gap, one id for each
  token); and of two different tokens that were both new, the second gets the next id.
\<close>

theorem token2id_dense_ids:
  "\<exists>i a1. token2id (PyStr s) a = Inr (i, a1)
     \<and> token2id (PyStr s) a1 = Inr (i, a1)
     \<and> (map_of (all_tokens a) s = None \<longrightarrow>
           i = length (all_tokens a) \<and> all_tokens a1 = all_tokens a @ [(s, i)])
     \<and> (map_of (all_tokens a) s \<noteq> None \<longrightarrow> a1 = a)
     \<and> (dense (all_tokens a) \<longrightarrow> dense (all_tokens a1))
     \<and> (\<forall>t. t \<noteq> s \<and> map_of (all_tokens a) s = None \<and> map_of (all_tokens a) t = None \<longrightarrow>
           (\<exists>a2. token2id (PyStr t) a1 = Inr (Suc i, a2) \<and> token2id (PyStr s) a2 = Inr (i, a2)))"
proof (cases "map_of (all_tokens a) s")
  case None
  define n where "n = length (all_tokens a)"
  define a1 where "a1 = a\<lparr>all_tokens := all_tokens a @ [(s, n)]\<rparr>"
  have first: "token2id (PyStr s) a = Inr (n, a1)"
    using None by (simp add: token2id_new n_def a1_def)
  have known: "map_of (all_tokens a1) s = Some n"
    using None by (simp add: a1_def map_add_Some_iff)
  have again: "token2id (PyStr s) a1 = Inr (n, a1)"
    using known by (rule token2id_known)
  have keeps: "dense (all_tokens a) \<longrightarrow> dense (all_tokens a1)"
    using None by (simp add: a1_def n_def dense_append)
  have other: "\<exists>a2. token2id (PyStr t) a1 = Inr (Suc n, a2) \<and> token2id (PyStr s) a2 = Inr (n, a2)"
    if "t \<noteq> s" "map_of (all_tokens a) t = None" for t
  proof -
    have "map_of (all_tokens a1) t = None"
      using that by (simp add: a1_def map_add_def)
    then have "token2id (PyStr t) a1 = Inr (Suc n, a1\<lparr>all_tokens := all_tokens a1 @ [(t, Suc n)]\<rparr>)"
      by (simp add: token2id_new) (simp add: a1_def n_def)
    moreover have "map_of (all_tokens (a1\<lparr>all_tokens := all_tokens a1 @ [(t, Suc n)]\<rparr>)) s = Some n"
      using known by (simp add: map_add_Some_iff)
    ultimately show ?thesis
      using token2id_known by blast
  qed
  show ?thesis
    using first again keeps other None
    by (intro exI [of _ n] exI [of _ a1]) (simp add: a1_def n_def)
next
  case (Some j)
  then show ?thesis
    by (intro exI [of _ j] exI [of _ a]) (simp add: token2id_known)
qed

theorem token2id_dense_ids_witness:
  "\<exists>a1 a2. token2id (PyStr ''cat'') init_attrs = Inr (0, a1)
     \<and> token2id (PyStr ''cat'') a1 = Inr (0, a1)
     \<and> token2id (PyStr ''dog'') a1 = Inr (1, a2)
     \<and> token2id (PyStr ''cat'') a2 = Inr (0, a2)
     \<and> dense (all_tokens a2)"
  using token2id_dense_ids [of "''cat''" init_attrs]
  by (simp add: token2id_def init_attrs_def dense_def)

section \<open>Ingestion and the caches\<close>

text \<open>
  C10. When the observation has no \<open>text\<close> entry and no TF-IDF matrix is cached,
  \<open>act\<close> returns the status dict \<open>{'id': 'TfidfRetriever'}\<close> and leaves every
  attribute of the instance and every shared object as it was: the vocabulary, the three
  frequency lists, the wait list and the document counter among them.
\<close>

theorem act_without_text:
  "tfidfs a = None \<Longrightarrow> obs ''text'' = None \<Longrightarrow>
   act tok obs (a, w) = Inr ([(''id'', ''TfidfRetriever'')], a, w)"
  by (simp add: act_def status_def)

theorem act_without_text_witness:
  "act split_spaces [''episode_done'' \<mapsto> ''True''] (a_cat_dog, fresh_disk)
     = Inr ([(''id'', ''TfidfRetriever'')], a_cat_dog, fresh_disk)"
  using act_without_text [of a_cat_dog "[''episode_done'' \<mapsto> ''True'']" split_spaces fresh_disk]
  by (simp add: a_cat_dog_def init_attrs_def)

lemma tfidf_builds:
  "tfidfs a = None \<Longrightarrow> nrows cm \<noteq> 1 \<Longrightarrow>
   \<exists>m. get_tfidf_from_count_matrix cm a = Inr (m, a\<lparr>tfidfs := Some m\<rparr>)"
  by (simp add: get_tfidf_from_count_matrix_def Let_def)

lemma reset_caches_raises:
  "doc_freqs a = None \<Longrightarrow> count_matrix a \<noteq> None \<Longrightarrow>
   reset_caches a = Inl (AttributeError ''doc_freqs'', a\<lparr>tfidfs := None, count_matrix := None\<rparr>)"
  by (simp add: reset_caches_def Let_def)

text \<open>
  With a TF-IDF matrix cached, \<open>act\<close> deletes the two caches and then raises at
  \<open>del self.doc_freqs\<close>, whatever the observation is: the fact is not ingested.
\<close>

lemma act_raises_after_build:
  "tfidfs a \<noteq> None \<Longrightarrow> doc_freqs a = None \<Longrightarrow> count_matrix a \<noteq> None \<Longrightarrow>
   act tok obs (a, w) = Inl (AttributeError ''doc_freqs'', a\<lparr>tfidfs := None, count_matrix := None\<rparr>, w)"
  by (simp add: act_def reset_caches_raises)

text \<open>
  Without a cached TF-IDF matrix, \<open>act\<close> leaves a cached count matrix in place: a
  count matrix built by \<open>save\<close> alone stays cached when a fact is ingested.
\<close>

lemma token2id_keeps_count_matrix:
  "token2id t a = Inr (i, a1) \<Longrightarrow> count_matrix a1 = count_matrix a"
  by (auto simp: token2id_def Let_def split: pytoken.splits option.splits)

lemma new_freqs_keeps_count_matrix:
  "new_freqs ts f a = Inr a1 \<Longrightarrow> count_matrix a1 = count_matrix a"
proof (induction ts arbitrary: a)
  case Nil
  then show ?case by simp
next
  case (Cons tc ts)
  obtain t c where "tc = (t, c)" by (cases tc)
  with Cons.prems obtain i a2 where "token2id (PyStr t) a = Inr (i, a2)"
    and "new_freqs ts f
           (a2\<lparr>freq_token := freq_token a2 @ [i], freq_fact_id := freq_fact_id a2 @ [f],
               freq_freq := freq_freq a2 @ [c]\<rparr>) = Inr a1"
    by (auto simp: new_freq_def split: sum.splits)
  with Cons.IH token2id_keeps_count_matrix show ?case
    by fastforce
qed

lemma act_keeps_count_matrix:
  assumes "tfidfs a = None" and "act tok obs (a, w) = Inr (st, a1, w1)"
  shows "count_matrix a1 = count_matrix a"
proof (cases "obs ''text''")
  case None
  with assms show ?thesis by (simp add: act_def)
next
  case (Some ftext)
  with assms obtain f a2 w2 where
    ins: "insert_fact_without_id ftext (a\<lparr>cnt := cnt a + 1\<rparr>, w) = Inr (f, a2, w2)"
    and loop: "new_freqs (np_unique (tok ftext)) f a2 = Inr a1"
    by (auto simp: act_def split: sum.splits)
  from ins have "count_matrix a2 = count_matrix a"
    by (auto simp: insert_fact_without_id_def new_fact_id_def Let_def flush_db_wait_list_def
        split: if_splits sum.splits)
  with new_freqs_keeps_count_matrix [OF loop] show ?thesis by simp
qed

text \<open>
  C3, at a concrete input. An instance fills its caches with \<open>load\<close> from a saved
  index of the tokens \<open>cat\<close> and \<open>dog\<close>. Ingesting one more fact, \<open>cat\<close>, then
  deletes the two caches and raises AttributeError at \<open>del self.doc_freqs\<close>: the fact
  gets no document id and no frequency record.
\<close>

theorem act_after_build_raises:
  "\<exists>a w. load (init_attrs, saved_index) = Inr ((), a, w) \<and>
     count_matrix a \<noteq> None \<and> tfidfs a \<noteq> None \<and>
     act split_spaces [''text'' \<mapsto> ''cat''] (a, w)
       = Inl (AttributeError ''doc_freqs'', a\<lparr>tfidfs := None, count_matrix := None\<rparr>, w)"
proof -
  define cm :: "nat sparse" where "cm = \<lparr>nrows = 2, ncols = 1, cells = [((0, 0), 1), ((1, 0), 1)]\<rparr>"
  define a0 where "a0 = init_attrs\<lparr>all_tokens := [(''cat'', 0), (''dog'', 1)], count_matrix := Some cm\<rparr>"
  obtain m where m: "get_tfidf_from_count_matrix cm a0 = Inr (m, a0\<lparr>tfidfs := Some m\<rparr>)"
    using tfidf_builds [of a0 cm] by (auto simp: a0_def cm_def init_attrs_def)
  define a where "a = a0\<lparr>tfidfs := Some m\<rparr>"
  define w where "w = saved_index\<lparr>num_docs := 1\<rparr>"
  have loaded: "load (init_attrs, saved_index) = Inr ((), a, w)"
    using m by (simp add: load_def saved_index_def Let_def a_def w_def a0_def cm_def)
  have "act split_spaces [''text'' \<mapsto> ''cat''] (a, w)
      = Inl (AttributeError ''doc_freqs'', a\<lparr>tfidfs := None, count_matrix := None\<rparr>, w)"
    by (rule act_raises_after_build) (simp_all add: a_def a0_def init_attrs_def)
  with loaded show ?thesis
    by (intro exI [of _ a] exI [of _ w]) (simp add: a_def a0_def init_attrs_def)
qed

section \<open>Retrieval: the query vector\<close>

lemma flush_cat_dog:
  "flush_db_wait_list True (a_cat_dog, w_one)
     = Inl (ProgrammingError ''Incorrect number of bindings supplied'', a_cat_dog,
            w_one\<lparr>db_lock_held := True\<rparr>)"
  by (simp add: flush_db_wait_list_def a_cat_dog_def init_attrs_def w_one_def fresh_disk_def
      executemany_def FACT_QUERY_def create_table_def DOC_TABLE_columns_def)

lemma flush_keeps:
  "flush_db_wait_list block (a, w) = Inr (u, a1, w1) \<Longrightarrow>
   all_tokens a1 = all_tokens a \<and> doc_freqs a1 = doc_freqs a"
  by (auto simp: flush_db_wait_list_def split: if_splits sum.splits)

lemma get_tfidf_keeps:
  "get_tfidf_from_count_matrix cm a = Inr (m, a1) \<Longrightarrow>
   all_tokens a1 = all_tokens a \<and> doc_freqs a1 = doc_freqs a"
  by (auto simp: get_tfidf_from_count_matrix_def Let_def split: option.splits if_splits)

lemma compute_tfidf_keeps:
  "compute_tfidf (a, w) = Inr (m, a1, w1) \<Longrightarrow>
   all_tokens a1 = all_tokens a \<and> doc_freqs a1 = doc_freqs a"
  by (auto simp: compute_tfidf_def get_count_matrix_def split: option.splits sum.splits
      dest!: get_tfidf_keeps)

lemma token2id_keeps_doc_freqs:
  "token2id t a = Inr (i, a1) \<Longrightarrow> doc_freqs a1 = doc_freqs a"
  by (auto simp: token2id_def Let_def split: pytoken.splits option.splits)

lemma token2ids_keeps_doc_freqs:
  "token2ids ts a = Inr (wids, a1) \<Longrightarrow> doc_freqs a1 = doc_freqs a"
proof (induction ts arbitrary: a wids a1)
  case Nil
  then show ?case by simp
next
  case (Cons t ts)
  then show ?case
    by (auto split: sum.splits dest!: token2id_keeps_doc_freqs)
qed

lemma query_vector_needs_doc_freqs:
  "doc_freqs a = None \<Longrightarrow> \<exists>e s. query_vector tokens (a, w) = Inl (e, s)"
proof (cases "token2ids tokens a")
  case (Inl e)
  then show ?thesis by (cases e) (simp add: query_vector_def)
next
  case (Inr r)
  assume none: "doc_freqs a = None"
  obtain wids a1 where r: "r = (wids, a1)" by (cases r)
  with Inr none have "doc_freqs a1 = None"
    using token2ids_keeps_doc_freqs by fastforce
  with Inr r show ?thesis
    by (simp add: query_vector_def Let_def)
qed

text \<open>
  As long as \<open>doc_freqs\<close> is unset, \<open>retrieve\<close> does not return a result for a query
  with a token of the vocabulary.
\<close>

lemma retrieve_needs_doc_freqs:
  assumes "doc_freqs a = None"
    and "list_ex (\<lambda>token. map_of (all_tokens a) token \<noteq> None) (tok query)"
  shows "\<exists>e s. retrieve tok argsort argpartition query k (a, w) = Inl (e, s)"
proof (cases "flush_db_wait_list True (a, w)")
  case (Inl e)
  then show ?thesis by (cases e) (simp add: retrieve_def)
next
  case (Inr r)
  obtain u a1 w1 where r: "r = (u, a1, w1)" by (cases r)
  from Inr r have keep: "all_tokens a1 = all_tokens a" "doc_freqs a1 = None"
    using flush_keeps assms(1) by fastforce+
  have survive: "filter (\<lambda>token. map_of (all_tokens a1) token \<noteq> None) (tok query) \<noteq> []"
    using assms(2) keep(1) by (auto simp: list_ex_iff filter_empty_conv)
  show ?thesis
  proof (cases "compute_tfidf (a1, w1)")
    case (Inl e)
    with Inr r survive show ?thesis by (cases e) (simp add: retrieve_def Let_def)
  next
    case built: (Inr r2)
    obtain m a2 w2 where r2: "r2 = (m, a2, w2)" by (cases r2)
    from built r2 keep have "doc_freqs a2 = None"
      using compute_tfidf_keeps by fastforce
    then obtain e s where "query_vector (filter (\<lambda>token. map_of (all_tokens a1) token \<noteq> None) (tok query)) (a2, w2) = Inl (e, s)"
      using query_vector_needs_doc_freqs by blast
    with Inr r survive built r2 show ?thesis
      by (simp add: retrieve_def Let_def)
  qed
qed

lemma token2ids_known:
  "list_all (\<lambda>token. map_of (all_tokens a) token \<noteq> None) ts \<Longrightarrow>
   token2ids ts a = Inr (map (\<lambda>token. the (map_of (all_tokens a) token)) ts, a)"
  by (induction ts) (auto simp: token2id_known)

text \<open>
  Had \<open>doc_freqs\<close> been set to the document frequencies \<open>df\<close>, the query vector
  would give every distinct token id \<open>i\<close> of the query, occurring \<open>c\<close> times, the
  weight \<open>log(1 + c) * idf\<close> with \<open>idf\<close> from \<open>df[i]\<close> and the document counter.
\<close>

lemma query_vector_weights:
  assumes "doc_freqs a = Some df"
    and "list_all (\<lambda>token. map_of (all_tokens a) token \<noteq> None) tokens"
    and "list_all (\<lambda>token. the (map_of (all_tokens a) token) < length df) tokens"
  shows "query_vector tokens (a, w) =
           Inr (map (\<lambda>(i, c). (i, ln (1 + real c) * idf (num_docs w) (df ! i)))
                  (np_unique (map (\<lambda>token. the (map_of (all_tokens a) token)) tokens)), a, w)"
proof -
  define wids where "wids = map (\<lambda>token. the (map_of (all_tokens a) token)) tokens"
  have ids: "token2ids tokens a = Inr (wids, a)"
    using assms(2) by (simp add: token2ids_known wids_def)
  have "set (map fst (np_unique wids)) = set wids"
    by (simp add: np_unique_def comp_def)
  with assms(3) have "\<not> list_ex (\<lambda>i. length df \<le> i) (map fst (np_unique wids))"
    by (auto simp: list_ex_iff list_all_iff wids_def)
  then have picked: "fancy_index df (map fst (np_unique wids)) = Inr (map (nth df) (map fst (np_unique wids)))"
    by (simp add: fancy_index_def)
  have "zip (map fst uc)
          (map2 (*) (map (\<lambda>(i, c). ln (1 + real c)) uc)
             (map (idf D) (map (nth df) (map fst uc))))
      = map (\<lambda>(i, c). (i, ln (1 + real c) * idf D (df ! i))) uc" for uc :: "(nat \<times> nat) list" and D
    by (induction uc) auto
  then show ?thesis
    using assms(1) by (simp add: query_vector_def ids picked Let_def wids_def [symmetric])
qed

text \<open>
  C1, at a concrete input. An instance loads a saved index of the two tokens \<open>cat\<close>
  and \<open>dog\<close> (\<open>load\<close> builds the TF-IDF matrix), and \<open>retrieve\<close> is called with
  the query \<open>cat\<close>, whose one token is in the vocabulary. No query vector is built:
  the read of \<open>self.doc_freqs\<close> at line 371 raises AttributeError.
\<close>

theorem retrieve_query_vector_raises:
  "\<exists>a w. load (init_attrs, saved_index) = Inr ((), a, w) \<and>
     all_tokens a = [(''cat'', 0), (''dog'', 1)] \<and> insert_wait_list a = [] \<and> tfidfs a \<noteq> None \<and>
     retrieve split_spaces stable_argsort sorting_argpartition ''cat'' 100 (a, w)
       = Inl (AttributeError ''doc_freqs'', a, w)"
proof -
  define cm :: "nat sparse" where "cm = \<lparr>nrows = 2, ncols = 1, cells = [((0, 0), 1), ((1, 0), 1)]\<rparr>"
  define a0 where "a0 = init_attrs\<lparr>all_tokens := [(''cat'', 0), (''dog'', 1)], count_matrix := Some cm\<rparr>"
  obtain m where m: "get_tfidf_from_count_matrix cm a0 = Inr (m, a0\<lparr>tfidfs := Some m\<rparr>)"
    using tfidf_builds [of a0 cm] by (auto simp: a0_def cm_def init_attrs_def)
  define a where "a = a0\<lparr>tfidfs := Some m\<rparr>"
  define w where "w = saved_index\<lparr>num_docs := 1\<rparr>"
  have loaded: "load (init_attrs, saved_index) = Inr ((), a, w)"
    using m by (simp add: load_def saved_index_def Let_def a_def w_def a0_def cm_def)
  have flushed: "flush_db_wait_list True (a, w) = Inr ((), a, w)"
    by (simp add: flush_db_wait_list_def a_def a0_def init_attrs_def)
  have cached: "compute_tfidf (a, w) = Inr (m, a, w)"
    by (simp add: compute_tfidf_def get_count_matrix_def get_tfidf_from_count_matrix_def
        a_def a0_def init_attrs_def)
  have "query_vector [''cat''] (a, w) = Inl (AttributeError ''doc_freqs'', a, w)"
    by (simp add: query_vector_def token2id_def Let_def a_def a0_def init_attrs_def)
  moreover have "filter (\<lambda>token. map_of (all_tokens a) token \<noteq> None) (split_spaces ''cat'') = [''cat'']"
    by (simp add: split_spaces_def a_def a0_def init_attrs_def)
  ultimately have "retrieve split_spaces stable_argsort sorting_argpartition ''cat'' 100 (a, w)
       = Inl (AttributeError ''doc_freqs'', a, w)"
    by (simp add: retrieve_def flushed cached Let_def)
  with loaded show ?thesis
    by (intro exI [of _ a] exI [of _ w]) (simp add: a_def a0_def init_attrs_def)
qed

section \<open>Shutdown\<close>

text \<open>A master's \<open>shutdown\<close> never returns normally.\<close>

lemma master_shutdown_raises:
  "comm_queue a = None \<Longrightarrow> \<exists>e s. shutdown (a, w) = Inl (e, s)"
  by (cases "flush_db_wait_list True (a, w)")
    (auto simp: shutdown_def flush_db_wait_list_def split: if_splits sum.splits)

text \<open>
  C4, at two concrete inputs. On a new master with nothing pending, \<open>shutdown\<close> raises
  AttributeError at \<open>self.start_data_collection()\<close>, before the join and the save. On
  a master that has ingested one fact, the flush itself raises ProgrammingError: the wait
  list holds the pair (id, fact), and \<open>FACT_QUERY\<close> has three placeholders.
\<close>

theorem master_shutdown_fails:
  "\<exists>a0 w0 a1 w1.
     init_master fresh_disk = Inr ((), a0, w0) \<and> comm_queue a0 = None \<and>
     shutdown (a0, w0) = Inl (AttributeError ''start_data_collection'', a0, w0) \<and>
     act split_spaces [''text'' \<mapsto> ''cat dog''] (a0, w0) = Inr (status, a1, w1) \<and>
     shutdown (a1, w1) =
       Inl (ProgrammingError ''Incorrect number of bindings supplied'', a1, w1\<lparr>db_lock_held := True\<rparr>)"
proof -
  have "shutdown (init_attrs, fresh_disk\<lparr>document := Some create_table\<rparr>)
      = Inl (AttributeError ''start_data_collection'', init_attrs, fresh_disk\<lparr>document := Some create_table\<rparr>)"
    by (simp add: shutdown_def flush_db_wait_list_def init_attrs_def)
  moreover have "shutdown (a_cat_dog, w_one)
      = Inl (ProgrammingError ''Incorrect number of bindings supplied'', a_cat_dog, w_one\<lparr>db_lock_held := True\<rparr>)"
    by (simp add: shutdown_def flush_cat_dog)
  ultimately show ?thesis
    using init_master_fresh act_cat_dog
    by (intro exI [of _ init_attrs] exI [of _ "fresh_disk\<lparr>document := Some create_table\<rparr>"]
        exI [of _ a_cat_dog] exI [of _ w_one])
      (simp add: w_one_def init_attrs_def)
qed

section \<open>Retrieval: the document lookup\<close>

text \<open>On a table with the columns \<open>__init__\<close> creates, the lookup of any result fails.\<close>

lemma fetch_docs_no_column:
  "columns t = DOC_TABLE_columns \<Longrightarrow> ids \<noteq> [] \<Longrightarrow>
   fetch_docs ids (Some t) = Inl (OperationalError ''no such column: fact'')"
  by (cases ids) (simp_all add: select_first_def DOC_TABLE_columns_def)

text \<open>
  C9, at concrete inputs. On the table as \<open>__init__\<close> creates it, holding the row of
  document 0, the lookup of result id 0 raises OperationalError: the query names the
  columns \<open>fact\<close> and \<open>fact_id\<close>, the table has id, x and y. The row cannot get there
  through the instance either: writing the wait list raises ProgrammingError, in
  \<open>executemany\<close> and so in the flush that \<open>retrieve\<close> starts with.
\<close>

theorem retrieve_lookup_fails:
  "fetch_docs [0]
     (Some (create_table\<lparr>rows := [[(''id'', SqlInt 0), (''x'', SqlText ''cat dog''), (''y'', SqlNull)]]\<rparr>))
     = Inl (OperationalError ''no such column: fact'')
   \<and> executemany FACT_QUERY [[SqlInt 0, SqlText ''cat dog'']] (Some create_table)
     = Inl (ProgrammingError ''Incorrect number of bindings supplied'')
   \<and> retrieve split_spaces stable_argsort sorting_argpartition ''cat'' 100 (a_cat_dog, w_one)
     = Inl (ProgrammingError ''Incorrect number of bindings supplied'', a_cat_dog,
            w_one\<lparr>db_lock_held := True\<rparr>)"
  by (simp add: select_first_def create_table_def DOC_TABLE_columns_def executemany_def
      FACT_QUERY_def retrieve_def flush_cat_dog)

section \<open>The merge of the workers\<close>

text \<open>
  \<open>_new_freq\<close> raises on every numeric token, so the loop over a worker's records
  raises at its first record, whatever the record is.
\<close>

lemma new_freq_refuses_ids:
  "new_freq (PyInt g) fact_id freq a = Inl (RuntimeError ''surprise'', a)"
  by (simp add: new_freq_def token2id_def)

lemma emit_freqs_raises:
  "\<exists>e a1. emit_freqs (ind # inds) q token_ids fact_ids freqs a = Inl (e, a1)"
  by (simp add: new_freq_refuses_ids split: option.splits)

lemma init_worker_fresh:
  "init_worker (fresh_disk\<lparr>document := Some create_table\<rparr>)
     = Inr ((), init_attrs\<lparr>comm_queue := Some 0\<rparr>,
            fresh_disk\<lparr>document := Some create_table, comm_queues := [[]]\<rparr>)"
  by (simp add: init_worker_def share_def init_files_def init_load_def fresh_disk_def)

lemma act_worker:
  "act split_spaces [''text'' \<mapsto> ''cat dog'']
     (init_attrs\<lparr>comm_queue := Some 0\<rparr>, fresh_disk\<lparr>document := Some create_table, comm_queues := [[]]\<rparr>)
     = Inr (status, a_worker, w_one\<lparr>comm_queues := [[]]\<rparr>)"
  by (simp add: act_def init_attrs_def insert_fact_without_id_def new_fact_id_def BUFFER_SIZE_def
      split_cat_dog unique_cat_dog new_freq_def token2id_def fresh_disk_def a_cat_dog_def w_one_def
      a_worker_def)

lemma shutdown_worker:
  "shutdown (a_worker, w_one\<lparr>comm_queues := [[]]\<rparr>)
     = Inl (ProgrammingError ''Incorrect number of bindings supplied'', a_worker,
            w_one\<lparr>comm_queues := [[]], db_lock_held := True\<rparr>)"
  by (simp add: shutdown_def flush_db_wait_list_def a_worker_def a_cat_dog_def init_attrs_def
      w_one_def fresh_disk_def executemany_def FACT_QUERY_def create_table_def DOC_TABLE_columns_def)

lemma merge_sent:
  "process_child_data (init_attrs, w_sent)
     = Inl (RuntimeError ''surprise'',
            init_attrs\<lparr>all_tokens := [(''cat'', 0), (''dog'', 1)],
                        child_token_map := [[(1, 1), (0, 0)]]\<rparr>,
            w_sent\<lparr>shared_queue := [], comm_queues := [[MStr ''EOD'']]\<rparr>)"
  by (simp add: process_child_data_def w_sent_def w_one_def fresh_disk_def init_attrs_def
      token2id_def new_freq_def upt_rec)

text \<open>
  The records of the same fact on a single instance, given to the matrix constructor with
  the shape 2 x 1, are a count matrix with a 1 in both rows.
\<close>

lemma single_instance_records:
  "csr_matrix (freq_freq a_cat_dog) (freq_token a_cat_dog) (freq_fact_id a_cat_dog) 2 1
     = Inr \<lparr>nrows = 2, ncols = 1, cells = [((0, 0), 1), ((1, 0), 1)]\<rparr>"
  by (simp add: a_cat_dog_def init_attrs_def csr_matrix_def coo_total_def upt_rec)

text \<open>
  C2, at a concrete input: one worker, one fact \<open>cat dog\<close>. The worker's \<open>shutdown\<close>
  raises ProgrammingError in its flush and sends nothing. Had its three messages been
  sent, the master's merge would map the vocabulary and then raise
  RuntimeError('surprise') at the first record: \<open>_new_freq\<close> passes the master's
  numeric id to \<open>_token2id\<close>, which refuses numbers. No record reaches the master's
  frequency lists, so there is no merged count matrix to compare.
\<close>

theorem worker_merge_fails:
  "\<exists>m0 wm k0 w0 k1 w1.
     init_master fresh_disk = Inr ((), m0, wm) \<and>
     init_worker wm = Inr ((), k0, w0) \<and> comm_queue k0 = Some 0 \<and>
     act split_spaces [''text'' \<mapsto> ''cat dog''] (k0, w0) = Inr (status, k1, w1) \<and>
     shutdown (k1, w1) =
       Inl (ProgrammingError ''Incorrect number of bindings supplied'', k1, w1\<lparr>db_lock_held := True\<rparr>) \<and>
     (\<exists>m1 w2.
        process_child_data
          (m0, w1\<lparr>shared_queue := [0],
                 comm_queues := [[MDict (all_tokens k1),
                                  MList [freq_token k1, freq_fact_id k1, freq_freq k1],
                                  MStr ''EOD'']]\<rparr>)
          = Inl (RuntimeError ''surprise'', m1, w2) \<and>
        freq_token m1 = [] \<and> freq_fact_id m1 = [] \<and> freq_freq m1 = [])"
proof -
  have sent: "w_one\<lparr>comm_queues := [[]], shared_queue := [0],
                 comm_queues := [[MDict (all_tokens a_worker),
                                  MList [freq_token a_worker, freq_fact_id a_worker, freq_freq a_worker],
                                  MStr ''EOD'']]\<rparr> = w_sent"
    by (simp add: w_sent_def a_worker_def a_cat_dog_def init_attrs_def)
  show ?thesis
    using init_master_fresh init_worker_fresh act_worker shutdown_worker merge_sent
    by (intro exI [of _ init_attrs] exI [of _ "fresh_disk\<lparr>document := Some create_table\<rparr>"]
        exI [of _ "init_attrs\<lparr>comm_queue := Some 0\<rparr>"]
        exI [of _ "fresh_disk\<lparr>document := Some create_table, comm_queues := [[]]\<rparr>"]
        exI [of _ a_worker] exI [of _ "w_one\<lparr>comm_queues := [[]]\<rparr>"])
      (simp add: sent init_attrs_def)
qed

section \<open>Retrieval: the selection of the best scores\<close>

lemma mset_map_nth_perm:
  "mset p = mset [0..<length xs] \<Longrightarrow> mset (map (nth xs) p) = mset xs"
proof -
  assume "mset p = mset [0..<length xs]"
  then have "image_mset (nth xs) (mset p) = image_mset (nth xs) (mset [0..<length xs])"
    by simp
  also have "\<dots> = mset (map (nth xs) [0..<length xs])"
    by simp
  also have "\<dots> = mset xs"
    by (simp only: map_nth)
  finally show ?thesis by simp
qed

lemma sorted_uminus_rev:
  fixes S :: "real list"
  shows "sorted (map uminus S) \<longleftrightarrow> sorted (rev S)"
  by (simp add: sorted_map sorted_wrt_rev)

lemma descending_is_rev_sort:
  fixes S :: "real list"
  assumes "mset S = mset xs" and "sorted (rev S)"
  shows "S = rev (sort xs)"
proof -
  have "sort xs = rev S"
    using assms by (intro properties_for_sort) simp_all
  then show ?thesis by simp
qed

lemma perm_upt_set: "mset p = mset [0..<n] \<Longrightarrow> set p = {0..<n}"
  by (metis mset_eq_setD set_upt)

lemma perm_upt_distinct: "mset p = mset [0..<n] \<Longrightarrow> distinct p"
  by (metis distinct_upt mset_eq_imp_distinct_iff)

lemma perm_upt_length: "mset p = mset [0..<n] \<Longrightarrow> length p = n"
  by (metis length_upt mset_eq_length minus_nat.diff_0)


text \<open>
  The selection of lines 382-386 on its own. Whatever \<open>np.argsort\<close> and
  \<open>np.argpartition\<close> do with equal scores, it returns distinct positions of the score
  vector whose scores are the first \<open>max_results\<close> of the scores sorted in descending
  order (all of them when there are no more than \<open>max_results\<close>): the full sort and the
  partition followed by a sort give the same sequence of scores.
\<close>

lemma top_k_descending_prefix:
  assumes asrt: "argsort_spec argsort" and apart: "argpartition_spec argpartition"
  shows "map (nth data) (top_k argsort argpartition data k) = take k (rev (sort data))
       \<and> distinct (top_k argsort argpartition data k)
       \<and> set (top_k argsort argpartition data k) \<subseteq> {..<length data}"
proof (cases "length data \<le> k")
  case True
  define r where "r = argsort (map uminus data)"
  have r_eq: "top_k argsort argpartition data k = r"
    using True by (simp add: top_k_def r_def)
  have perm: "mset r = mset [0..<length data]"
    and srt: "sorted (map (nth (map uminus data)) r)"
    using asrt [unfolded argsort_spec_def, rule_format, of "map uminus data"]
    by (simp_all add: r_def)
  have inr: "set r = {0..<length data}"
    using perm by (rule perm_upt_set)
  have "map (nth (map uminus data)) r = map uminus (map (nth data) r)"
    using inr by simp
  with srt have "sorted (rev (map (nth data) r))"
    by (simp only: sorted_uminus_rev)
  moreover have "mset (map (nth data) r) = mset data"
    using perm by (rule mset_map_nth_perm)
  ultimately have "map (nth data) r = rev (sort data)"
    by (intro descending_is_rev_sort)
  moreover have "distinct r"
    using perm by (rule perm_upt_distinct)
  ultimately show ?thesis
    using True inr by (auto simp: r_eq)
next
  case False
  then have k: "k < length data" by simp
  define nd where "nd = map uminus data"
  define p where "p = argpartition nd k"
  define part where "part = take k p"
  define q where "q = argsort (map (\<lambda>i. - (data ! i)) part)"
  define r where "r = map (nth part) q"
  have r_eq: "top_k argsort argpartition data k = r"
    using False by (simp add: top_k_def Let_def r_def q_def part_def p_def nd_def)
  have klen: "k < length nd"
    using k by (simp add: nd_def)
  have pperm: "mset p = mset [0..<length data]"
    using apart [unfolded argpartition_spec_def, rule_format, OF klen]
    by (simp add: p_def nd_def)
  have pivot_lo: "nd ! (p ! i) \<le> nd ! (p ! k)" if "i < k" for i
    using apart [unfolded argpartition_spec_def, rule_format, OF klen] that k
    by (simp add: p_def nd_def)
  have pivot_hi: "nd ! (p ! k) \<le> nd ! (p ! i)" if "k < i" "i < length data" for i
    using apart [unfolded argpartition_spec_def, rule_format, OF klen] that
    by (simp add: p_def nd_def)
  have plen: "length p = length data"
    using pperm by (rule perm_upt_length)
  have pset: "set p = {0..<length data}"
    using pperm by (rule perm_upt_set)
  have pdist: "distinct p"
    using pperm by (rule perm_upt_distinct)
  have in_range: "p ! i < length data" if "i < length data" for i
    using pset plen that by (metis atLeastLessThan_iff nth_mem)
  have neg: "nd ! (p ! i) = - (data ! (p ! i))" if "i < length data" for i
    using in_range [OF that] by (simp add: nd_def)
  have partlen: "length part = k"
    using k plen by (simp add: part_def)
  have qperm: "mset q = mset [0..<k]"
    and qsrt: "sorted (map (nth (map (\<lambda>i. - (data ! i)) part)) q)"
    using asrt [unfolded argsort_spec_def, rule_format, of "map (\<lambda>i. - (data ! i)) part"] partlen
    by (simp_all add: q_def)
  have qset: "set q = {0..<k}"
    using qperm by (rule perm_upt_set)
  have qlen: "length q = k"
    using qperm by (rule perm_upt_length)
  have mr: "mset r = mset part"
    unfolding r_def using qperm partlen by (intro mset_map_nth_perm) simp
  have rdist: "distinct r"
    using mr pdist by (metis distinct_take mset_eq_imp_distinct_iff part_def)
  have "set r = set part"
    using mr by (rule mset_eq_setD)
  also have "\<dots> \<subseteq> set p"
    by (simp add: part_def set_take_subset)
  finally have rset: "set r \<subseteq> {..<length data}"
    using pset by auto
  define S where "S = map (nth data) r"
  have Slen: "length S = k"
    by (simp add: S_def r_def qlen)
  have "map (nth (map (\<lambda>i. - (data ! i)) part)) q = map uminus S"
    using qset partlen by (simp add: S_def r_def)
  with qsrt have Sdesc: "sorted (rev S)"
    by (simp only: sorted_uminus_rev)
  define B where "B = rev (sort (map (nth data) (drop k p)))"
  have "mset (S @ B) = image_mset (nth data) (mset part + mset (drop k p))"
    by (simp add: S_def B_def mr)
  also have "mset part + mset (drop k p) = mset p"
    unfolding part_def by (metis append_take_drop_id mset_append)
  also have "image_mset (nth data) (mset p) = mset data"
    using mset_map_nth_perm [OF pperm] by simp
  finally have all: "mset (S @ B) = mset data" .
  have S_ge: "data ! (p ! k) \<le> x" if "x \<in> set S" for x
  proof -
    from that have "x \<in> nth data ` set part"
      using mr by (metis S_def mset_eq_setD set_map)
    then obtain i where i: "i < k" "x = data ! (p ! i)"
      using partlen by (auto simp: part_def in_set_conv_nth)
    from pivot_lo [OF i(1)] neg [of i] neg [of k] k i(1) show ?thesis
      by (simp add: i(2))
  qed
  have B_le: "y \<le> data ! (p ! k)" if "y \<in> set B" for y
  proof -
    from that obtain j where j: "j < length data - k" "y = data ! (p ! (k + j))"
      using plen by (auto simp: B_def in_set_conv_nth)
    show ?thesis
    proof (cases "j = 0")
      case True
      with j show ?thesis by simp
    next
      case False
      with j have "k < k + j" "k + j < length data" by simp_all
      from pivot_hi [OF this] neg [of "k + j"] neg [of k] k this(2) show ?thesis
        by (simp add: j(2))
    qed
  qed
  have "sorted (rev (S @ B))"
    using Sdesc S_ge B_le by (fastforce simp: sorted_append B_def)
  with all have "S @ B = rev (sort data)"
    by (intro descending_is_rev_sort)
  then have "take k (rev (sort data)) = S"
    using Slen by (metis append_eq_conv_conj)
  then show ?thesis
    using rdist rset by (simp add: r_eq S_def)
qed


lemma stable_argsort_spec: "argsort_spec stable_argsort"
  by (simp add: argsort_spec_def stable_argsort_def)

lemma sorting_argpartition_spec: "argpartition_spec sorting_argpartition"
proof -
  have "xs ! (sort_key (nth xs) [0..<length xs] ! i) \<le> xs ! (sort_key (nth xs) [0..<length xs] ! j)"
    if "i \<le> j" "j < length xs" for xs :: "real list" and i j
  proof -
    have "sorted (map (nth xs) (sort_key (nth xs) [0..<length xs]))"
      by simp
    from sorted_nth_mono [OF this, of i j] that show ?thesis
      by simp
  qed
  then show ?thesis
    by (simp add: argpartition_spec_def sorting_argpartition_def)
qed

text \<open>
  The scores [5, 3, 4, 1, 2] with \<open>max_results = 2\<close> give the documents 0 and 2, with
  the scores [5, 4]; with \<open>max_results = 5\<close> the full sort gives all five.
\<close>

lemma top_k_descending_prefix_run:
  "argsort_spec stable_argsort \<and> argpartition_spec sorting_argpartition
   \<and> top_k stable_argsort sorting_argpartition [5, 3, 4, 1, 2] 2 = [0, 2]
   \<and> map (nth [5, 3, 4, 1, 2 :: real]) (top_k stable_argsort sorting_argpartition [5, 3, 4, 1, 2] 2)
       = [5, 4]
   \<and> top_k stable_argsort sorting_argpartition [5, 3, 4, 1, 2] 5 = [0, 2, 1, 4, 3]"
  using top_k_descending_prefix [OF stable_argsort_spec sorting_argpartition_spec, of "[5, 3, 4, 1, 2]" 2]
  by (simp add: stable_argsort_spec sorting_argpartition_spec top_k_def stable_argsort_def
      sorting_argpartition_def)

text \<open>
  \<open>retrieve\<close> does not get as far as the selection. While \<open>doc_freqs\<close> is unset, a
  call that returns at all returns the empty sequence: no document is ever returned.
\<close>

lemma retrieve_returns_nothing:
  assumes "doc_freqs a = None"
    and "retrieve tok argsort argpartition query k (a, w) = Inr (xs, s)"
  shows "xs = []"
proof (cases "list_ex (\<lambda>token. map_of (all_tokens a) token \<noteq> None) (tok query)")
  case True
  with assms show ?thesis
    using retrieve_needs_doc_freqs [of a tok query argsort argpartition k w] by auto
next
  case False
  show ?thesis
  proof (cases "flush_db_wait_list True (a, w)")
    case (Inl e)
    with assms(2) show ?thesis by (cases e) (simp add: retrieve_def)
  next
    case (Inr r)
    obtain u a1 w1 where r: "r = (u, a1, w1)" by (cases r)
    from Inr r have "all_tokens a1 = all_tokens a"
      using flush_keeps by fastforce
    with False have "filter (\<lambda>token. map_of (all_tokens a1) token \<noteq> None) (tok query) = []"
      by (auto simp: list_ex_iff filter_empty_conv)
    with Inr r assms(2) show ?thesis
      by (simp add: retrieve_def Let_def)
  qed
qed


section \<open>The TF-IDF matrix\<close>

text \<open>
  The factor \<open>idf\<close> is never negative, it is 0 for a token that all \<open>D\<close> documents
  hold, and for a token in 1 of 10 documents it is \<open>log(9.5 / 1.5)\<close>.
\<close>

lemma idf_nonneg: "0 \<le> idf D N"
  by (simp add: idf_def Let_def)

lemma idf_all_docs: "idf D D = 0"
proof -
  have "(1 / 2) / (real D + 1 / 2) \<le> 1"
    by simp
  moreover have "0 < (1 / 2) / (real D + 1 / 2)"
    by simp
  ultimately have "ln ((1 / 2) / (real D + 1 / 2)) \<le> 0"
    using ln_le_zero_iff by blast
  then show ?thesis
    by (auto simp: idf_def Let_def)
qed

lemma idf_one_of_ten: "idf 10 1 = ln (19 / 3)"
proof -
  have "0 \<le> ln (19 / 3 :: real)"
    by simp
  moreover have "(real 10 - real 1 + 0.5) / (real 1 + 0.5) = (19 / 3 :: real)"
    by simp
  ultimately show ?thesis
    unfolding idf_def Let_def by (simp del: ln_ge_zero_iff)
qed

lemma map_of_map_key:
  "map_of (map (\<lambda>x. (fst x, f (fst x) (snd x))) l) k = map_option (f k) (map_of l k)"
  by (induction l) auto

lemma map_of_filter_key:
  "map_of (filter (\<lambda>x. P (fst x)) l) k = (if P k then map_of l k else None)"
  by (induction l) auto

text \<open>
  With one stored cell for each position, the row sum of the binary matrix is the number
  of documents whose count of the token is positive.
\<close>

lemma binary_row_sum_card:
  assumes "distinct (map fst (cells cm))"
  shows "binary_row_sum cm t = card {d. 0 < cell cm t d}"
proof -
  define fl where "fl = filter (\<lambda>x. fst (fst x) = t \<and> 0 < snd x) (cells cm)"
  have len: "binary_row_sum cm t = length (map (snd \<circ> fst) fl)"
    by (simp add: binary_row_sum_def fl_def case_prod_unfold)
  have "distinct (map fst fl)"
    unfolding fl_def using assms by (rule distinct_map_filter)
  moreover have "inj_on snd (set (map fst fl))"
    by (auto simp: fl_def inj_on_def)
  ultimately have dist: "distinct (map (snd \<circ> fst) fl)"
    by (metis distinct_map map_map)
  have "set (map (snd \<circ> fst) fl) = {d. 0 < cell cm t d}"
  proof (intro set_eqI iffI)
    fix d
    assume "d \<in> set (map (snd \<circ> fst) fl)"
    then obtain v where "((t, d), v) \<in> set (cells cm)" "0 < v"
      by (force simp: fl_def)
    with assms have "map_of (cells cm) (t, d) = Some v" "0 < v"
      by simp_all
    then show "d \<in> {d. 0 < cell cm t d}"
      by (simp add: cell_def)
  next
    fix d
    assume "d \<in> {d. 0 < cell cm t d}"
    then obtain v where "map_of (cells cm) (t, d) = Some v" "0 < v"
      by (auto simp: cell_def split: option.splits)
    then have "((t, d), v) \<in> set fl"
      by (auto simp: fl_def dest: map_of_SomeD)
    then show "d \<in> set (map (snd \<circ> fst) fl)"
      by force
  qed
  with dist len show ?thesis
    by (metis distinct_card)
qed

text \<open>
  For a count matrix of any other number of rows, with one stored cell for each
  position, the TF-IDF matrix is built and cached, and its cell (t, d) is
  \<open>idf_t * log(1 + count[t, d])\<close>, where \<open>idf_t\<close> comes from the number of documents
  whose count of \<open>t\<close> is positive.
\<close>

lemma tfidf_formula:
  assumes "tfidfs a = None" and "nrows cm \<noteq> 1" and "distinct (map fst (cells cm))"
  shows "\<exists>m. get_tfidf_from_count_matrix cm a = Inr (m, a\<lparr>tfidfs := Some m\<rparr>) \<and>
           (\<forall>t d. t < nrows cm \<longrightarrow>
              cell m t d = idf (ncols cm) (card {d. 0 < cell cm t d}) * ln (1 + real (cell cm t d)))"
proof -
  define idfs where "idfs = map (idf (ncols cm)) (map (binary_row_sum cm) [0..<nrows cm])"
  define m where "m = diags_dot idfs (log1p cm)"
  have built: "get_tfidf_from_count_matrix cm a = Inr (m, a\<lparr>tfidfs := Some m\<rparr>)"
    using assms(1,2) by (simp add: get_tfidf_from_count_matrix_def Let_def m_def idfs_def)
  have "cell m t d = idf (ncols cm) (card {d. 0 < cell cm t d}) * ln (1 + real (cell cm t d))"
    if t: "t < nrows cm" for t d
  proof -
    have factor: "idfs ! t = idf (ncols cm) (card {d. 0 < cell cm t d})"
      using t assms(3) by (simp add: idfs_def binary_row_sum_card)
    have stored: "cells m =
        map (\<lambda>x. (fst x, idfs ! fst (fst x) * snd x))
          (filter (\<lambda>x. idfs ! fst (fst x) \<noteq> 0)
             (map (\<lambda>x. (fst x, ln (1 + real (snd x)))) (cells cm)))"
      by (simp add: m_def diags_dot_def log1p_def case_prod_unfold)
    have outer: "map_of (cells m) (t, d)
        = map_option (\<lambda>v. idfs ! t * v)
            (map_of (filter (\<lambda>x. idfs ! fst (fst x) \<noteq> 0)
               (map (\<lambda>x. (fst x, ln (1 + real (snd x)))) (cells cm))) (t, d))"
      unfolding stored
      using map_of_map_key [of "\<lambda>k v. idfs ! fst k * v"
          "filter (\<lambda>x. idfs ! fst (fst x) \<noteq> 0)
             (map (\<lambda>x. (fst x, ln (1 + real (snd x)))) (cells cm))" "(t, d)"]
      by simp
    have inner: "map_of (map (\<lambda>x. (fst x, ln (1 + real (snd x)))) (cells cm)) (t, d)
        = map_option (\<lambda>c. ln (1 + real c)) (map_of (cells cm) (t, d))"
      using map_of_map_key [of "\<lambda>k c. ln (1 + real c)" "cells cm" "(t, d)"] by simp
    have product: "cell m t d = idfs ! t * ln (1 + real (cell cm t d))"
    proof (cases "idfs ! t = 0")
      case True
      then have "map_of (filter (\<lambda>x. idfs ! fst (fst x) \<noteq> 0)
               (map (\<lambda>x. (fst x, ln (1 + real (snd x)))) (cells cm))) (t, d) = None"
        using map_of_filter_key [of "\<lambda>k. idfs ! fst k \<noteq> 0"
            "map (\<lambda>x. (fst x, ln (1 + real (snd x)))) (cells cm)" "(t, d)"] by simp
      with True show ?thesis
        by (simp add: cell_def outer)
    next
      case False
      then have "map_of (filter (\<lambda>x. idfs ! fst (fst x) \<noteq> 0)
               (map (\<lambda>x. (fst x, ln (1 + real (snd x)))) (cells cm))) (t, d)
          = map_option (\<lambda>c. ln (1 + real c)) (map_of (cells cm) (t, d))"
        using map_of_filter_key [of "\<lambda>k. idfs ! fst k \<noteq> 0"
            "map (\<lambda>x. (fst x, ln (1 + real (snd x)))) (cells cm)" "(t, d)"] inner by simp
      then show ?thesis
        by (simp add: cell_def outer split: option.splits)
    qed
    show ?thesis
      by (simp only: product factor)
  qed
  with built show ?thesis by blast
qed

text \<open>
  C7, at a concrete input: a count matrix of one row (a vocabulary of one token).
  \<open>_get_tfidf_from_count_matrix\<close> raises TypeError, called directly or by \<open>load\<close>.
\<close>

theorem tfidf_one_token_raises:
  "get_tfidf_from_count_matrix \<lparr>nrows = 1, ncols = 2, cells = [((0, 0), 1)]\<rparr> init_attrs
     = Inl (TypeError ''numpy.float64 object does not support item assignment'', init_attrs)
   \<and> load (init_attrs, fresh_disk\<lparr>token_file := Some [(''cat'', 0)],
              retriever_file := Some \<lparr>nrows = 1, ncols = 2, cells = [((0, 0), 1)]\<rparr>\<rparr>)
     = Inl (TypeError ''numpy.float64 object does not support item assignment'',
            init_attrs\<lparr>all_tokens := [(''cat'', 0)],
                        count_matrix := Some \<lparr>nrows = 1, ncols = 2, cells = [((0, 0), 1)]\<rparr>\<rparr>,
            fresh_disk\<lparr>token_file := Some [(''cat'', 0)],
              retriever_file := Some \<lparr>nrows = 1, ncols = 2, cells = [((0, 0), 1)]\<rparr>,
              num_docs := 2\<rparr>)"
  by (simp add: get_tfidf_from_count_matrix_def load_def init_attrs_def fresh_disk_def)

section \<open>The count matrix\<close>

text \<open>
  What the matrix constructor builds from well-formed records and a shape: each cell is the
  sum of the counts of its records.
\<close>

lemma map_of_graph:
  "(\<And>k v. (k, v) \<in> set l \<Longrightarrow> v = g k) \<Longrightarrow>
   map_of l k = (if k \<in> fst ` set l then Some (g k) else None)"
  by (induction l) force+

lemma sum_list_filter_index:
  fixes f :: "'a \<Rightarrow> nat"
  shows "sum_list (map f (filter P xs)) = (\<Sum>i | i < length xs \<and> P (xs ! i). f (xs ! i))"
proof (induction xs rule: rev_induct)
  case Nil
  then show ?case by simp
next
  case (snoc x xs)
  have split: "{i. i < Suc (length xs) \<and> P ((xs @ [x]) ! i)}
      = {i. i < length xs \<and> P (xs ! i)} \<union> (if P x then {length xs} else {})"
    by (auto simp: nth_append less_Suc_eq)
  have same: "(\<Sum>i | i < length xs \<and> P (xs ! i). f ((xs @ [x]) ! i))
      = (\<Sum>i | i < length xs \<and> P (xs ! i). f (xs ! i))"
    by (intro sum.cong) (auto simp: nth_append)
  show ?case
    using snoc.IH by (simp add: split same sum.union_disjoint)
qed

lemma coo_total_index:
  assumes "length row = length data" "length col = length data"
  shows "coo_total (zip row (zip col data)) t d
       = (\<Sum>i | i < length data \<and> row ! i = t \<and> col ! i = d. data ! i)"
proof -
  have "coo_total (zip row (zip col data)) t d
      = (\<Sum>i | i < length (zip row (zip col data)) \<and>
               (\<lambda>(i, j, c). i = t \<and> j = d) (zip row (zip col data) ! i).
           (\<lambda>(i, j, c). c) (zip row (zip col data) ! i))"
    unfolding coo_total_def by (rule sum_list_filter_index)
  also have "\<dots> = (\<Sum>i | i < length data \<and> row ! i = t \<and> col ! i = d. data ! i)"
    using assms by (intro sum.cong) auto
  finally show ?thesis .
qed

lemma coo_total_absent:
  "(t, d) \<notin> set (zip row col) \<Longrightarrow> length row = length data \<Longrightarrow> length col = length data \<Longrightarrow>
   coo_total (zip row (zip col data)) t d = 0"
proof -
  assume absent: "(t, d) \<notin> set (zip row col)" and len: "length row = length data" "length col = length data"
  have "\<not> (row ! i = t \<and> col ! i = d)" if "i < length data" for i
    using absent len that by (auto simp: in_set_zip)
  then have none: "{i. i < length data \<and> row ! i = t \<and> col ! i = d} = {}"
    by auto
  show ?thesis
    unfolding coo_total_index [OF len] none by simp
qed

lemma csr_matrix_cell:
  assumes len: "length row = length data" "length col = length data"
    and rows_ok: "list_all (\<lambda>i. i < V) row" and cols_ok: "list_all (\<lambda>j. j < D) col"
  shows "\<exists>m. csr_matrix data row col V D = Inr m \<and> nrows m = V \<and> ncols m = D
           \<and> (\<forall>t d. cell m t d = (\<Sum>i | i < length data \<and> row ! i = t \<and> col ! i = d. data ! i))"
proof -
  define recs where "recs = zip row (zip col data)"
  define l where "l = [((t, d), coo_total recs t d). t \<leftarrow> [0..<V], d \<leftarrow> [0..<D], (t, d) \<in> set (zip row col)]"
  define m :: "nat sparse" where "m = \<lparr>nrows = V, ncols = D, cells = l\<rparr>"
  have no_ex: "\<not> list_ex (\<lambda>i. V \<le> i) row" "\<not> list_ex (\<lambda>j. D \<le> j) col"
    using rows_ok cols_ok by (auto simp: list_all_iff list_ex_iff)
  have built: "csr_matrix data row col V D = Inr m"
    unfolding m_def l_def recs_def using len no_ex by (simp add: csr_matrix_def)
  have graph: "v = (\<lambda>(t, d). coo_total recs t d) k" if "(k, v) \<in> set l" for k v
    using that by (auto simp: l_def split: if_splits)
  have keys: "fst ` set l = {(t, d). t < V \<and> d < D \<and> (t, d) \<in> set (zip row col)}"
    by (force simp: l_def split: if_splits)
  have inside: "t < V \<and> d < D" if "(t, d) \<in> set (zip row col)" for t d
    using that rows_ok cols_ok by (auto simp: list_all_iff dest: set_zip_leftD set_zip_rightD)
  have "cell m t d = coo_total recs t d" for t d
  proof (cases "(t, d) \<in> set (zip row col)")
    case True
    with inside keys have "(t, d) \<in> fst ` set l" by blast
    then show ?thesis
      using map_of_graph [of l "\<lambda>(t, d). coo_total recs t d" "(t, d)"] graph
      by (simp add: cell_def m_def)
  next
    case False
    with keys have "(t, d) \<notin> fst ` set l" by blast
    then have "map_of l (t, d) = None"
      by (simp add: map_of_eq_None_iff)
    then show ?thesis
      using False len by (simp add: cell_def m_def recs_def coo_total_absent)
  qed
  then show ?thesis
    using built len by (intro exI [of _ m]) (simp add: m_def recs_def coo_total_index)
qed

text \<open>
  Without a cached matrix, \<open>_get_count_matrix\<close> raises at \<open>self.len\<close> and builds
  nothing, whatever the records are.
\<close>

lemma get_count_matrix_uncached:
  "count_matrix a = None \<Longrightarrow> get_count_matrix (a, w) = Inl (AttributeError ''len'', a, w)"
  by (simp add: get_count_matrix_def agent_len_def)

lemma get_count_matrix_cached:
  "count_matrix a = Some m \<Longrightarrow> get_count_matrix (a, w) = Inr (m, a, w)"
  by (simp add: get_count_matrix_def)

text \<open>
  C5, at a concrete input. A new master ingests \<open>cat dog\<close>; its records are two cells of
  a 2 x 1 matrix. \<open>_get_count_matrix\<close> raises AttributeError at
  \<open>self.len(self.all_tokens)\<close> (line 131) and caches nothing, and so do \<open>compute_tfidf\<close>
  and \<open>save\<close>, which call it.
\<close>

theorem get_count_matrix_raises:
  "\<exists>a0 w0 a1 w1.
     init_master fresh_disk = Inr ((), a0, w0) \<and>
     act split_spaces [''text'' \<mapsto> ''cat dog''] (a0, w0) = Inr (status, a1, w1) \<and>
     count_matrix a1 = None \<and> records_in_range a1 (num_docs w1) \<and>
     get_count_matrix (a1, w1) = Inl (AttributeError ''len'', a1, w1) \<and>
     compute_tfidf (a1, w1) = Inl (AttributeError ''len'', a1, w1) \<and>
     save (a1, w1) = Inl (AttributeError ''len'', a1, w1\<lparr>token_file := Some (all_tokens a1)\<rparr>)"
proof -
  have none: "count_matrix a_cat_dog = None"
    by (simp add: a_cat_dog_def init_attrs_def)
  have "records_in_range a_cat_dog (num_docs w_one)"
    by (simp add: records_in_range_def a_cat_dog_def init_attrs_def w_one_def fresh_disk_def)
  moreover have "compute_tfidf (a_cat_dog, w_one) = Inl (AttributeError ''len'', a_cat_dog, w_one)"
    by (simp add: compute_tfidf_def get_count_matrix_uncached none)
  moreover have "save (a_cat_dog, w_one)
      = Inl (AttributeError ''len'', a_cat_dog, w_one\<lparr>token_file := Some (all_tokens a_cat_dog)\<rparr>)"
    by (simp add: save_def get_count_matrix_uncached none)
  ultimately show ?thesis
    using init_master_fresh act_cat_dog none get_count_matrix_uncached [OF none, of w_one]
    by (intro exI [of _ init_attrs] exI [of _ "fresh_disk\<lparr>document := Some create_table\<rparr>"]
        exI [of _ a_cat_dog] exI [of _ w_one]) simp
qed

text \<open>Two records of one cell are added up.\<close>

lemma csr_matrix_sums_duplicates:
  "csr_matrix [2, 3] [0, 0] [0, 0] 1 1 = Inr \<lparr>nrows = 1, ncols = 1, cells = [((0, 0), 5)]\<rparr>"
  by (simp add: csr_matrix_def coo_total_def)

lemma dense_id_bound: "dense v \<Longrightarrow> map_of v s = Some i \<Longrightarrow> i < length v"
proof -
  assume d: "dense v" and "map_of v s = Some i"
  then have "i \<in> set (map snd v)"
    by (metis map_of_SomeD set_zip_rightD zip_map_fst_snd)
  with d show ?thesis
    by (simp add: dense_def)
qed

lemma new_freq_in_range:
  assumes "new_freq (PyStr s) f c a = Inr a1"
    and "dense (all_tokens a)" and "records_in_range a n" and "f < n"
  shows "dense (all_tokens a1) \<and> records_in_range a1 n"
proof (cases "map_of (all_tokens a) s")
  case None
  with assms show ?thesis
    by (auto simp: new_freq_def token2id_def Let_def records_in_range_def list_all_iff
        dense_append less_Suc_eq)
next
  case (Some i)
  with assms dense_id_bound [of "all_tokens a" s i] show ?thesis
    by (auto simp: new_freq_def token2id_def records_in_range_def)
qed

lemma new_freqs_in_range:
  "new_freqs ts f a = Inr a1 \<Longrightarrow> dense (all_tokens a) \<Longrightarrow> records_in_range a n \<Longrightarrow> f < n \<Longrightarrow>
   dense (all_tokens a1) \<and> records_in_range a1 n"
proof (induction ts arbitrary: a)
  case Nil
  then show ?case by simp
next
  case (Cons tc ts)
  obtain t c where tc: "tc = (t, c)" by (cases tc)
  from Cons.prems(1) tc obtain a2 where step: "new_freq (PyStr t) f c a = Inr a2"
    and rest: "new_freqs ts f a2 = Inr a1"
    by (auto split: sum.splits)
  from new_freq_in_range [OF step Cons.prems(2,3,4)] Cons.IH [OF rest] Cons.prems(4)
  show ?case by blast
qed

lemma flush_keeps_records:
  "flush_db_wait_list block (a, w) = Inr (u, a1, w1) \<Longrightarrow>
   all_tokens a1 = all_tokens a \<and> freq_token a1 = freq_token a \<and>
   freq_fact_id a1 = freq_fact_id a \<and> freq_freq a1 = freq_freq a \<and> num_docs w1 = num_docs w"
  by (auto simp: flush_db_wait_list_def split: if_splits sum.splits)

lemma insert_fact_keeps_records:
  "insert_fact_without_id ftext (a, w) = Inr (f, a1, w1) \<Longrightarrow>
   all_tokens a1 = all_tokens a \<and> freq_token a1 = freq_token a \<and>
   freq_fact_id a1 = freq_fact_id a \<and> freq_freq a1 = freq_freq a \<and>
   f = num_docs w \<and> num_docs w1 = Suc (num_docs w)"
  by (auto simp: insert_fact_without_id_def new_fact_id_def Let_def
      split: if_splits sum.splits dest!: flush_keeps_records)

lemma records_in_range_mono:
  "records_in_range a n \<Longrightarrow> n \<le> n' \<Longrightarrow> records_in_range a n'"
  by (auto simp: records_in_range_def list_all_iff)

text \<open>
  \<open>act\<close> keeps the vocabulary dense and the frequency lists well formed, and both hold
  on a new instance.
\<close>

lemma act_keeps_in_range:
  assumes "act tok obs (a, w) = Inr (st, a1, w1)"
    and "tfidfs a = None" and "dense (all_tokens a)" and "records_in_range a (num_docs w)"
  shows "dense (all_tokens a1) \<and> records_in_range a1 (num_docs w1)"
proof (cases "obs ''text''")
  case None
  with assms show ?thesis by (simp add: act_def)
next
  case (Some ftext)
  with assms(1,2) obtain f a2 w2 where
    ins: "insert_fact_without_id ftext (a\<lparr>cnt := cnt a + 1\<rparr>, w) = Inr (f, a2, w2)"
    and loop: "new_freqs (np_unique (tok ftext)) f a2 = Inr a1" and w: "w1 = w2"
    by (auto simp: act_def split: sum.splits)
  from insert_fact_keeps_records [OF ins]
  have same: "all_tokens a2 = all_tokens a" "freq_token a2 = freq_token a"
    "freq_fact_id a2 = freq_fact_id a" "freq_freq a2 = freq_freq a"
    and f: "f = num_docs w" "num_docs w2 = Suc (num_docs w)"
    by simp_all
  have "records_in_range a2 (num_docs w2)"
    using assms(4) same f(2) by (auto simp: records_in_range_def list_all_iff less_Suc_eq)
  moreover have "dense (all_tokens a2)"
    using assms(3) same by simp
  ultimately show ?thesis
    using new_freqs_in_range [OF loop] f w by simp
qed

lemma init_in_range: "dense (all_tokens init_attrs) \<and> records_in_range init_attrs n"
  by (simp add: init_attrs_def dense_def records_in_range_def)

end
